theory Spec2Isabelle
  imports Complex_Main
begin

section \<open>The scoring engine of dashboard/app.py\<close>

text \<open>
  The development embeds \<^verbatim>\<open>percentile\<close>, \<^verbatim>\<open>safe_float\<close> and
  \<^verbatim>\<open>compute_scores\<close> of \<^verbatim>\<open>dashboard/app.py\<close>.

  Numbers: a Python float is modelled as a real number, so the embedding speaks about
  finite values and exact arithmetic, without the rounding of binary floating point. NaN
  and the infinities are treated in a part of their own, for the first loop and the
  percentile ranks. Every exception the source can raise is a value of
  \<open>py_error\<close>, and a function that can raise returns \<open>py_error + 'a\<close>.
\<close>

subsection \<open>Python values, errors and sequencing\<close>

datatype py_error =
  ZeroDivisionError | KeyError | TypeError | AttributeError | IndexError | ValueError

text \<open>The values found in an input record: \<^verbatim>\<open>None\<close>, a bool, a number, a string.\<close>

datatype pyval = PNone | PBool bool | PNum real | PStr string

text \<open>An input record is a Python dict with string keys.\<close>

type_synonym pydict = "string \<Rightarrow> pyval option"

text \<open>
  Python's built-in \<^verbatim>\<open>float()\<close> applied to a string is not code of the repository: it
  is a parameter of the model, \<open>None\<close> where \<^verbatim>\<open>float()\<close> raises ValueError.
\<close>

type_synonym str_parser = "string \<Rightarrow> real option"

text \<open>Running the rest of a block only when the first statement did not raise.\<close>

definition ebind :: "py_error + 'a \<Rightarrow> ('a \<Rightarrow> py_error + 'b) \<Rightarrow> py_error + 'b" where
  "ebind m f = (case m of Inl e \<Rightarrow> Inl e | Inr v \<Rightarrow> f v)"

text \<open>
  \<^verbatim>\<open>a / b\<close> on floats raises ZeroDivisionError when \<^verbatim>\<open>b\<close> is zero. Every division
  of the source by a variable goes through \<open>py_div\<close>; a division by a non-zero literal
  (\<^verbatim>\<open>/ 100.0\<close>) cannot raise and is written \<open>/\<close>.
\<close>

definition py_div :: "real \<Rightarrow> real \<Rightarrow> py_error + real" where
  "py_div a b = (if b = 0 then Inl ZeroDivisionError else Inr (a / b))"

text \<open>\<^verbatim>\<open>xs[i]\<close> for a non-negative index.\<close>

definition py_index :: "'a list \<Rightarrow> nat \<Rightarrow> py_error + 'a" where
  "py_index xs i = (if i < length xs then Inr (xs ! i) else Inl IndexError)"

text \<open>\<^verbatim>\<open>max(xs)\<close>: the first greatest element; ValueError on the empty list.\<close>

fun py_max :: "real list \<Rightarrow> py_error + real" where
  "py_max [] = Inl ValueError"
| "py_max (x # xs) = Inr (fold (\<lambda>v m. if m < v then v else m) xs x)"

text \<open>\<^verbatim>\<open>r.get(k)\<close> and \<^verbatim>\<open>r.get(k, d)\<close>.\<close>

definition get :: "pydict \<Rightarrow> string \<Rightarrow> pyval" where
  "get r k = (case r k of None \<Rightarrow> PNone | Some v \<Rightarrow> v)"

definition get_default :: "pydict \<Rightarrow> string \<Rightarrow> pyval \<Rightarrow> pyval" where
  "get_default r k d = (case r k of None \<Rightarrow> d | Some v \<Rightarrow> v)"

text \<open>Truth value of a Python object, as \<^verbatim>\<open>if x\<close> and \<^verbatim>\<open>x or y\<close> test it.\<close>

fun truthy :: "pyval \<Rightarrow> bool" where
  "truthy PNone = False"
| "truthy (PBool b) = b"
| "truthy (PNum x) = (x \<noteq> 0)"
| "truthy (PStr s) = (s \<noteq> [])"

text \<open>\<^verbatim>\<open>float(val)\<close>: \<open>None\<close> where it raises (TypeError on None, ValueError on text).\<close>

fun py_float :: "str_parser \<Rightarrow> pyval \<Rightarrow> real option" where
  "py_float pf PNone = None"
| "py_float pf (PBool b) = Some (if b then 1 else 0)"
| "py_float pf (PNum x) = Some x"
| "py_float pf (PStr s) = pf s"

text \<open>\<^verbatim>\<open>str.lower()\<close> on ASCII text.\<close>

definition lower_char :: "char \<Rightarrow> char" where
  "lower_char c =
     (let n = (of_char c :: nat) in if 65 \<le> n \<and> n \<le> 90 then char_of (n + 32) else c)"

definition lower :: "string \<Rightarrow> string" where
  "lower s = map lower_char s"

subsection \<open>percentile and safe_float\<close>

text \<open>
  \<^verbatim>\<open>
  def percentile(values, target):
      if not values:
          return 0.0
      sorted_vals = sorted(values)
      count_le = sum(1 for v in sorted_vals if v <= target)
      return (count_le / len(sorted_vals)) * 100.0
  \<close>
\<close>

definition percentile :: "real list \<Rightarrow> real \<Rightarrow> py_error + real" where
  "percentile values target =
     (if values = [] then Inr 0.0
      else
        let sorted_vals = sort values;
            count_le = length (filter (\<lambda>v. v \<le> target) sorted_vals)
        in ebind (py_div (real count_le) (real (length sorted_vals)))
             (\<lambda>q. Inr (q * 100.0)))"

text \<open>
  \<^verbatim>\<open>
  def safe_float(val, default=0.0):
      try:
          if val is None or val == "":
              return default
          return float(val)
      except Exception:
          return default
  \<close>
\<close>

definition safe_float :: "str_parser \<Rightarrow> pyval \<Rightarrow> real \<Rightarrow> real" where
  "safe_float pf val dflt =
     (if val = PNone \<or> val = PStr [] then dflt
      else case py_float pf val of None \<Rightarrow> dflt | Some x \<Rightarrow> x)"

text \<open>The idiom \<^verbatim>\<open>safe_float(r.get(k))\<close>, with the default \<^verbatim>\<open>0.0\<close>.\<close>

definition safe_float_get :: "str_parser \<Rightarrow> pydict \<Rightarrow> string \<Rightarrow> real" where
  "safe_float_get pf r k = safe_float pf (get r k) 0.0"

subsection \<open>compute_scores: the first loop\<close>

text \<open>
  The dict appended to \<^verbatim>\<open>computed_internals\<close> for each record, with its six keys
  \<^verbatim>\<open>F_total\<close>, \<^verbatim>\<open>P\<close>, \<^verbatim>\<open>CC\<close>, \<^verbatim>\<open>EXLI_per_student\<close>, \<^verbatim>\<open>EXLB_per_student\<close>,
  \<^verbatim>\<open>SR_ratio\<close>.
\<close>

record internals =
  i_F_total :: real
  i_P :: real
  i_CC :: real
  i_EXLI_per_student :: real
  i_EXLB_per_student :: real
  i_SR_ratio :: real

text \<open>The twelve lists and \<^verbatim>\<open>computed_internals\<close> that the first loop fills.\<close>

record vectors =
  P_list :: "real list"
  CC_over_F_list :: "real list"
  PF_over_F_list :: "real list"
  PG_over_F_list :: "real list"
  EP_over_F_list :: "real list"
  EXLI_per_student_list :: "real list"
  EXLB_per_student_list :: "real list"
  PE_index_list :: "real list"
  CES_N_list :: "real list"
  RD_other_states_list :: "real list"
  RD_other_countries_list :: "real list"
  PR_SR_ratio_list :: "real list"
  computed_internals :: "internals list"

definition empty_vectors :: vectors where
  "empty_vectors =
     \<lparr>P_list = [], CC_over_F_list = [], PF_over_F_list = [], PG_over_F_list = [],
      EP_over_F_list = [], EXLI_per_student_list = [], EXLB_per_student_list = [],
      PE_index_list = [], CES_N_list = [], RD_other_states_list = [],
      RD_other_countries_list = [], PR_SR_ratio_list = [], computed_internals = []\<rparr>"

text \<open>\<^verbatim>\<open>F_total = F1 + 0.3 * F2\<close>\<close>

definition F_total_of :: "str_parser \<Rightarrow> pydict \<Rightarrow> real" where
  "F_total_of pf r = safe_float_get pf r ''F1'' + 0.3 * safe_float_get pf r ''F2''"

text \<open>\<^verbatim>\<open>P = 0.3 * PW + 0.5 * PS + 0.1 * PG + 0.1 * PI\<close>\<close>

definition P_of :: "str_parser \<Rightarrow> pydict \<Rightarrow> real" where
  "P_of pf r =
     0.3 * safe_float_get pf r ''PW'' + 0.5 * safe_float_get pf r ''PS''
       + 0.1 * safe_float_get pf r ''PG'' + 0.1 * safe_float_get pf r ''PI''"

text \<open>\<^verbatim>\<open>CC = 0.3 * CCW + 0.5 * CCS + 0.1 * CCG + 0.1 * CCI\<close>\<close>

definition CC_of :: "str_parser \<Rightarrow> pydict \<Rightarrow> real" where
  "CC_of pf r =
     0.3 * safe_float_get pf r ''CCW'' + 0.5 * safe_float_get pf r ''CCS''
       + 0.1 * safe_float_get pf r ''CCG'' + 0.1 * safe_float_get pf r ''CCI''"

text \<open>
  \<^verbatim>\<open>
  EXLI_per_student = 0.0
  EXLB_per_student = 0.0
  if seats_N > 0:
      EXLI_per_student = (EXLIP / seats_N) + (2.0 * EXLIE / seats_N)
      EXLB_per_student = EXLB
  \<close>
\<close>

definition EXLI_per_student_of :: "real \<Rightarrow> real \<Rightarrow> real \<Rightarrow> py_error + real" where
  "EXLI_per_student_of EXLIP EXLIE seats_N =
     (if seats_N > 0
      then ebind (py_div EXLIP seats_N) (\<lambda>a.
           ebind (py_div (2.0 * EXLIE) seats_N) (\<lambda>b. Inr (a + b)))
      else Inr 0.0)"

definition EXLB_per_student_of :: "real \<Rightarrow> real \<Rightarrow> real" where
  "EXLB_per_student_of EXLB seats_N = (if seats_N > 0 then EXLB else 0.0)"

text \<open>\<^verbatim>\<open>SR_ratio = (A_apps / S_intake) if S_intake > 0 else 0.0\<close>\<close>

definition SR_ratio_of :: "real \<Rightarrow> real \<Rightarrow> py_error + real" where
  "SR_ratio_of A_apps S_intake = (if S_intake > 0 then py_div A_apps S_intake else Inr 0.0)"

text \<open>
  The expression \<^verbatim>\<open>x / (d if d > 0 else 1.0)\<close>, written out in the source for
  \<^verbatim>\<open>P / F_total\<close>, \<^verbatim>\<open>CC / P\<close>, \<^verbatim>\<open>PF / F_total\<close>, \<^verbatim>\<open>PG_granted / F_total\<close> and
  \<^verbatim>\<open>EP / F_total\<close>, in both loops.
\<close>

definition over_or_one :: "real \<Rightarrow> real \<Rightarrow> py_error + real" where
  "over_or_one x d = py_div x (if d > 0 then d else 1.0)"

text \<open>The body of \<^verbatim>\<open>for r in records:\<close>, lines 92 to 153.\<close>

definition first_loop_body :: "str_parser \<Rightarrow> vectors \<Rightarrow> pydict \<Rightarrow> py_error + vectors" where
  "first_loop_body pf st r =
     (let F_total = F_total_of pf r;
          seats_N = safe_float_get pf r ''seats_N'';
          P = P_of pf r;
          CC = CC_of pf r;
          PF = safe_float_get pf r ''PF_filed'';
          PG_granted = safe_float_get pf r ''PG_granted'';
          EP = safe_float_get pf r ''EP_revenue'';
          EXLIP = safe_float_get pf r ''EXLIP'';
          EXLIE = safe_float_get pf r ''EXLIE'';
          EXLB = safe_float_get pf r ''EXLB''
      in
      ebind (EXLI_per_student_of EXLIP EXLIE seats_N) (\<lambda>EXLI_per_student.
      let EXLB_per_student = EXLB_per_student_of EXLB seats_N;
          pe_index = safe_float_get pf r ''PE_index'';
          CES_N = safe_float_get pf r ''CES_N'';
          RD_other_states = safe_float_get pf r ''RD_other_states'';
          RD_other_countries = safe_float_get pf r ''RD_other_countries'';
          A_apps = safe_float_get pf r ''applications_A'';
          S_intake = safe_float_get pf r ''sanctioned_S''
      in
      ebind (SR_ratio_of A_apps S_intake) (\<lambda>SR_ratio.
      ebind (over_or_one P F_total) (\<lambda>e1.
      ebind (over_or_one CC P) (\<lambda>e2.
      ebind (over_or_one PF F_total) (\<lambda>e3.
      ebind (over_or_one PG_granted F_total) (\<lambda>e4.
      ebind (over_or_one EP F_total) (\<lambda>e5.
      Inr \<lparr>P_list = P_list st @ [e1],
           CC_over_F_list = CC_over_F_list st @ [e2],
           PF_over_F_list = PF_over_F_list st @ [e3],
           PG_over_F_list = PG_over_F_list st @ [e4],
           EP_over_F_list = EP_over_F_list st @ [e5],
           EXLI_per_student_list = EXLI_per_student_list st @ [EXLI_per_student],
           EXLB_per_student_list = EXLB_per_student_list st @ [EXLB_per_student],
           PE_index_list = PE_index_list st @ [pe_index],
           CES_N_list = CES_N_list st @ [CES_N],
           RD_other_states_list = RD_other_states_list st @ [RD_other_states],
           RD_other_countries_list = RD_other_countries_list st @ [RD_other_countries],
           PR_SR_ratio_list = PR_SR_ratio_list st @ [SR_ratio],
           computed_internals = computed_internals st @
             [\<lparr>i_F_total = F_total, i_P = P, i_CC = CC,
               i_EXLI_per_student = EXLI_per_student,
               i_EXLB_per_student = EXLB_per_student,
               i_SR_ratio = SR_ratio\<rparr>]\<rparr>))))))))"

fun first_loop :: "str_parser \<Rightarrow> vectors \<Rightarrow> pydict list \<Rightarrow> py_error + vectors" where
  "first_loop pf st [] = Inr st"
| "first_loop pf st (r # rs) = ebind (first_loop_body pf st r) (\<lambda>st'. first_loop pf st' rs)"

text \<open>\<^verbatim>\<open>R_star = max(PR_SR_ratio_list) if PR_SR_ratio_list else 1.0\<close>\<close>

definition R_star_of :: "vectors \<Rightarrow> py_error + real" where
  "R_star_of st = (if PR_SR_ratio_list st \<noteq> [] then py_max (PR_SR_ratio_list st) else Inr 1.0)"

subsection \<open>compute_scores: the category calculators of the second loop\<close>

text \<open>\<^verbatim>\<open>inst_type = (r.get("institution_type") or "college").lower()\<close>: a truthy value
  that is not a string has no method \<^verbatim>\<open>lower\<close>.\<close>

definition inst_type_of :: "pydict \<Rightarrow> py_error + string" where
  "inst_type_of r =
     (let v = get r ''institution_type'';
          x = (if truthy v then v else PStr ''college'')
      in case x of PStr s \<Rightarrow> Inr (lower s) | _ \<Rightarrow> Inl AttributeError)"

text \<open>
  \<^verbatim>\<open>
  F_over_N = (F_total / seats_N) if seats_N > 0 else 0.0
  if inst_type == "university":
      FSR = 20.0 * (15.0 * F_over_N)
  else:
      FSR = 30.0 * (20.0 * F_over_N)
  if F_over_N < (1.0 / 50.0):
      FSR = 0.0
  \<close>
\<close>

definition F_over_N_of :: "real \<Rightarrow> real \<Rightarrow> py_error + real" where
  "F_over_N_of F_total seats_N = (if seats_N > 0 then py_div F_total seats_N else Inr 0.0)"

definition FSR_of :: "string \<Rightarrow> real \<Rightarrow> real \<Rightarrow> py_error + real" where
  "FSR_of inst_type F_total seats_N =
     ebind (F_over_N_of F_total seats_N) (\<lambda>F_over_N.
     let FSR = (if inst_type = ''university'' then 20.0 * (15.0 * F_over_N)
                else 30.0 * (20.0 * F_over_N))
     in Inr (if F_over_N < 1.0 / 50.0 then 0.0 else FSR))"

text \<open>(b) \<^verbatim>\<open>FQE = FQ + FE\<close>, lines 176 to 186.\<close>

definition FQE_of :: "str_parser \<Rightarrow> pydict \<Rightarrow> real" where
  "FQE_of pf r =
     (let phd_percent = safe_float_get pf r ''phd_percent'';
          FQ = (if phd_percent \<le> 95.0 then 15.0 * (phd_percent / 95.0) else 15.0);
          avg_exp = safe_float_get pf r ''avg_experience_years'';
          Ei = (if avg_exp \<le> 45.0 then max (avg_exp - 30.0) 0.0 else 15.0);
          E = Ei;
          FE = (if E \<le> 15.0 then 15.0 * (E / 15.0) else 15.0)
      in FQ + FE)"

text \<open>(c) Library and lab, lines 189 to 199.\<close>

definition p_EXLI_of :: "vectors \<Rightarrow> internals \<Rightarrow> py_error + real" where
  "p_EXLI_of st it = percentile (EXLI_per_student_list st) (i_EXLI_per_student it)"

definition p_EXLB_of :: "vectors \<Rightarrow> internals \<Rightarrow> py_error + real" where
  "p_EXLB_of st it = percentile (EXLB_per_student_list st) (i_EXLB_per_student it)"

definition LL_of :: "vectors \<Rightarrow> string \<Rightarrow> internals \<Rightarrow> py_error + real" where
  "LL_of st inst_type it =
     ebind (p_EXLI_of st it) (\<lambda>p_EXLI.
     ebind (p_EXLB_of st it) (\<lambda>p_EXLB.
     let LI = (if inst_type = ''university'' then 20.0 * p_EXLI / 100.0
               else 15.0 * p_EXLI / 100.0);
         LB = (if inst_type = ''university'' then 20.0 * p_EXLB / 100.0
               else 15.0 * p_EXLB / 100.0)
     in Inr (LI + LB)))"

text \<open>(d) SEC, lines 202 to 206.\<close>

definition SEC_of :: "str_parser \<Rightarrow> pydict \<Rightarrow> real" where
  "SEC_of pf r =
     (let pA = safe_float_get pf r ''SEC_pA_percentile'' / 100.0;
          pB = safe_float_get pf r ''SEC_pB_percentile'' / 100.0;
          winners = safe_float_get pf r ''SEC_winners_count'';
          pC_val = (if winners \<ge> 3 then 1.0
                    else safe_float_get pf r ''SEC_pC_percentile'' / 100.0)
      in 10.0 * (pA / 2.0 + pB / 4.0 + pC_val / 4.0))"

text \<open>RPII (a) Publications: \<^verbatim>\<open>P_over_F\<close> and its percentile, lines 212 to 214.\<close>

definition P_over_F_of :: "internals \<Rightarrow> py_error + real" where
  "P_over_F_of it = over_or_one (i_P it) (i_F_total it)"

definition p_pub_of :: "vectors \<Rightarrow> internals \<Rightarrow> py_error + real" where
  "p_pub_of st it = ebind (P_over_F_of it) (\<lambda>P_over_F. percentile (P_list st) P_over_F)"

definition PU_of :: "vectors \<Rightarrow> internals \<Rightarrow> py_error + real" where
  "PU_of st it = ebind (p_pub_of st it) (\<lambda>p_pub. Inr (45.0 * (p_pub / 100.0)))"

text \<open>
  RPII (b) Citations, lines 217 to 223:
  \<^verbatim>\<open>
  p_P = percentile(P_list, P_over_F)
  base_citation_index = (CC / (P_val if P_val > 0 else 1.0)) * (p_P / 100.0)
  p_citation = percentile(CC_over_F_list, base_citation_index)
  CI = 45.0 * (p_citation / 100.0)
  \<close>
\<close>

definition base_citation_index_of :: "vectors \<Rightarrow> internals \<Rightarrow> py_error + real" where
  "base_citation_index_of st it =
     (let CC = i_CC it; P_val = i_P it in
      ebind (P_over_F_of it) (\<lambda>P_over_F.
      ebind (percentile (P_list st) P_over_F) (\<lambda>p_P.
      ebind (over_or_one CC P_val) (\<lambda>q. Inr (q * (p_P / 100.0))))))"

definition p_citation_of :: "vectors \<Rightarrow> internals \<Rightarrow> py_error + real" where
  "p_citation_of st it =
     ebind (base_citation_index_of st it) (\<lambda>base_citation_index.
       percentile (CC_over_F_list st) base_citation_index)"

definition CI_of :: "vectors \<Rightarrow> internals \<Rightarrow> py_error + real" where
  "CI_of st it = ebind (p_citation_of st it) (\<lambda>p_citation. Inr (45.0 * (p_citation / 100.0)))"

text \<open>RPII (c) IPR, lines 226 to 233.\<close>

definition p_PF_of :: "str_parser \<Rightarrow> vectors \<Rightarrow> internals \<Rightarrow> pydict \<Rightarrow> py_error + real" where
  "p_PF_of pf st it r =
     ebind (over_or_one (safe_float_get pf r ''PF_filed'') (i_F_total it))
       (percentile (PF_over_F_list st))"

definition p_PG_of :: "str_parser \<Rightarrow> vectors \<Rightarrow> internals \<Rightarrow> pydict \<Rightarrow> py_error + real" where
  "p_PG_of pf st it r =
     ebind (over_or_one (safe_float_get pf r ''PG_granted'') (i_F_total it))
       (percentile (PG_over_F_list st))"

definition p_EP_of :: "str_parser \<Rightarrow> vectors \<Rightarrow> internals \<Rightarrow> pydict \<Rightarrow> py_error + real" where
  "p_EP_of pf st it r =
     ebind (over_or_one (safe_float_get pf r ''EP_revenue'') (i_F_total it))
       (percentile (EP_over_F_list st))"

definition IPR_of :: "str_parser \<Rightarrow> vectors \<Rightarrow> internals \<Rightarrow> pydict \<Rightarrow> py_error + real" where
  "IPR_of pf st it r =
     (let PG_granted_val = safe_float_get pf r ''PG_granted'' in
      ebind (p_PF_of pf st it r) (\<lambda>p_PF.
      let PF_comp = 2.0 * (p_PF / 100.0) in
      ebind (p_PG_of pf st it r) (\<lambda>p_PG.
      let PG_comp = 4.0 * (p_PG / 100.0);
          I_P = (if PG_granted_val \<ge> 1 \<and> safe_float_get pf r ''PL_licensed_count'' \<ge> 1
                 then 1.0 else 0.0)
      in
      ebind (p_EP_of pf st it r) (\<lambda>p_EP.
      let PL_comp = 2.0 * I_P + 2.0 * (p_EP / 100.0)
      in Inr (PF_comp + PG_comp + PL_comp)))))"

text \<open>GO, lines 238 to 243.\<close>

definition p_pe_of :: "str_parser \<Rightarrow> vectors \<Rightarrow> pydict \<Rightarrow> py_error + real" where
  "p_pe_of pf st r = percentile (PE_index_list st) (safe_float_get pf r ''PE_index'')"

definition GO_of :: "str_parser \<Rightarrow> vectors \<Rightarrow> pydict \<Rightarrow> py_error + real" where
  "GO_of pf st r =
     (let UE_percent = safe_float_get pf r ''UE_graduating_percent'';
          UE = 50.0 * (UE_percent / 80.0)
      in ebind (p_pe_of pf st r) (\<lambda>p_pe.
         let PE = 50.0 * (p_pe / 100.0) in Inr (UE + PE)))"

text \<open>OI, lines 246 to 265.\<close>

definition p_CES_of :: "str_parser \<Rightarrow> vectors \<Rightarrow> pydict \<Rightarrow> py_error + real" where
  "p_CES_of pf st r = percentile (CES_N_list st) (safe_float_get pf r ''CES_N'')"

definition p_RD_states_of :: "str_parser \<Rightarrow> vectors \<Rightarrow> pydict \<Rightarrow> py_error + real" where
  "p_RD_states_of pf st r =
     percentile (RD_other_states_list st) (safe_float_get pf r ''RD_other_states'')"

definition p_RD_countries_of :: "str_parser \<Rightarrow> vectors \<Rightarrow> pydict \<Rightarrow> py_error + real" where
  "p_RD_countries_of pf st r =
     percentile (RD_other_countries_list st) (safe_float_get pf r ''RD_other_countries'')"

definition DAP_of :: "pydict \<Rightarrow> real" where
  "DAP_of r =
     (if truthy (get r ''DAP_ramps'') then 2.0 else 0.0) +
     (if truthy (get r ''DAP_lifts'') then 2.0 else 0.0) +
     (if truthy (get r ''DAP_walking_aids'') then 2.0 else 0.0) +
     (if truthy (get r ''DAP_toilets'') then 1.5 else 0.0) +
     (if truthy (get r ''DAP_braille_labs'') then 1.0 else 0.0) +
     (if truthy (get r ''DAP_av_aids'') then 1.5 else 0.0)"

definition OI_of :: "str_parser \<Rightarrow> vectors \<Rightarrow> pydict \<Rightarrow> py_error + real" where
  "OI_of pf st r =
     ebind (p_CES_of pf st r) (\<lambda>p_CES.
     let CES_score = 25.0 * (p_CES / 100.0) in
     ebind (p_RD_states_of pf st r) (\<lambda>p_states.
     let RD_states = 18.0 * (p_states / 100.0) in
     ebind (p_RD_countries_of pf st r) (\<lambda>p_countries.
     let RD_countries = 7.0 * (p_countries / 100.0);
         RD_score = RD_states + RD_countries;
         N1 = safe_float_get pf r ''WS_women_students_percent'';
         N2 = safe_float_get pf r ''WS_women_faculty_percent'';
         N3 = safe_float_get pf r ''WS_women_leadership_percent'';
         WS = 8.0 * (N1 / 50.0) + 8.0 * (N2 / 20.0) + 4.0 * (N3 / 2.0);
         ESCS_N = safe_float_get pf r ''ESCS_disadvantaged_percent'';
         ESCS = 20.0 * (ESCS_N / 50.0);
         DAP = DAP_of r
     in Inr (CES_score + RD_score + WS + ESCS + DAP))))"

text \<open>
  PR, lines 268 to 271:
  \<^verbatim>\<open>SR = 50.0 * ((SR_ratio / R_star) if R_star > 0 else 0.0)\<close>
\<close>

definition SR_of :: "real \<Rightarrow> real \<Rightarrow> py_error + real" where
  "SR_of SR_ratio R_star =
     ebind (if R_star > 0 then py_div SR_ratio R_star else Inr 0.0) (\<lambda>q. Inr (50.0 * q))"

definition PR_of :: "str_parser \<Rightarrow> internals \<Rightarrow> real \<Rightarrow> pydict \<Rightarrow> py_error + real" where
  "PR_of pf it R_star r =
     (let PR_survey = safe_float_get pf r ''PR_survey'';
          SR_ratio = i_SR_ratio it
      in ebind (SR_of SR_ratio R_star) (\<lambda>SR. Inr (PR_survey + SR)))"

subsection \<open>compute_scores: weights, total and the second loop\<close>

text \<open>
  The file \<^verbatim>\<open>core/weights.yaml\<close> is read by the engine and is not part of the sources;
  what \<^verbatim>\<open>yaml.safe_load\<close> finds there is a parameter. A loaded document is a mapping
  with string keys or something else (null, a list, a scalar); a value of the mapping is a
  number or something a float cannot be multiplied with (null, text, a list).
\<close>

datatype yval = YNum real | YOther

datatype ydoc = YDict "string \<Rightarrow> yval option" | YNotDict

text \<open>
  The three ways the \<^verbatim>\<open>try\<close> block can go: the file does not exist; importing yaml,
  opening or parsing the file raises; or \<^verbatim>\<open>yaml.safe_load\<close> returns a document.
\<close>

datatype weights_file = NoFile | LoadFails | Loads ydoc

definition default_weights :: ydoc where
  "default_weights =
     YDict [''TLR'' \<mapsto> YNum 30.0, ''RP'' \<mapsto> YNum 30.0, ''GO'' \<mapsto> YNum 20.0,
            ''OI'' \<mapsto> YNum 10.0, ''PR'' \<mapsto> YNum 10.0]"

text \<open>
  \<^verbatim>\<open>
  try:
      weights = {"TLR": 30.0, "RP": 30.0, "GO": 20.0, "OI": 10.0, "PR": 10.0}
      weights_path = os.path.join(BASE_DIR, "core", "weights.yaml")
      if os.path.exists(weights_path):
          import yaml
          with open(weights_path, "r", encoding="utf-8") as f:
              weights = yaml.safe_load(f)
  except Exception:
      weights = {"TLR": 30.0, "RP": 30.0, "GO": 20.0, "OI": 10.0, "PR": 10.0}
  \<close>
\<close>

definition weights_of :: "weights_file \<Rightarrow> ydoc" where
  "weights_of wfile =
     (case wfile of NoFile \<Rightarrow> default_weights
               | LoadFails \<Rightarrow> default_weights
               | Loads d \<Rightarrow> d)"

text \<open>\<^verbatim>\<open>weights[k]\<close>\<close>

definition subscript :: "ydoc \<Rightarrow> string \<Rightarrow> py_error + yval" where
  "subscript w k =
     (case w of YNotDict \<Rightarrow> Inl TypeError
              | YDict m \<Rightarrow> (case m k of None \<Rightarrow> Inl KeyError | Some v \<Rightarrow> Inr v))"

text \<open>\<^verbatim>\<open>weights.get(k, d)\<close>\<close>

definition ydoc_get :: "ydoc \<Rightarrow> string \<Rightarrow> yval \<Rightarrow> py_error + yval" where
  "ydoc_get w k d =
     (case w of YNotDict \<Rightarrow> Inl AttributeError
              | YDict m \<Rightarrow> (case m k of None \<Rightarrow> Inr d | Some v \<Rightarrow> Inr v))"

text \<open>\<^verbatim>\<open>x * v\<close> for a float \<^verbatim>\<open>x\<close>\<close>

definition py_mul :: "real \<Rightarrow> yval \<Rightarrow> py_error + real" where
  "py_mul x v = (case v of YNum w \<Rightarrow> Inr (x * w) | YOther \<Rightarrow> Inl TypeError)"

text \<open>
  \<^verbatim>\<open>
  total_score = (
      (TLR * weights["TLR"]) +
      (RPII * weights.get("RP", weights.get("RPII", 30.0))) +
      (GO * weights["GO"]) +
      (OI * weights["OI"]) +
      (PR * weights["PR"])
  ) / 100.0
  \<close>
\<close>

definition total_score ::
  "weights_file \<Rightarrow> real \<Rightarrow> real \<Rightarrow> real \<Rightarrow> real \<Rightarrow> real \<Rightarrow> py_error + real" where
  "total_score wfile TLR RPII GO OI PR =
     (let weights = weights_of wfile in
      ebind (subscript weights ''TLR'') (\<lambda>w1.
      ebind (py_mul TLR w1) (\<lambda>a.
      ebind (ydoc_get weights ''RPII'' (YNum 30.0)) (\<lambda>inner.
      ebind (ydoc_get weights ''RP'' inner) (\<lambda>w2.
      ebind (py_mul RPII w2) (\<lambda>b.
      ebind (subscript weights ''GO'') (\<lambda>w3.
      ebind (py_mul GO w3) (\<lambda>c.
      ebind (subscript weights ''OI'') (\<lambda>w4.
      ebind (py_mul OI w4) (\<lambda>d.
      ebind (subscript weights ''PR'') (\<lambda>w5.
      ebind (py_mul PR w5) (\<lambda>e.
      Inr ((a + b + c + d + e) / 100.0)))))))))))))"

text \<open>\<^verbatim>\<open>round(x, 2)\<close>: to the nearest multiple of 0.01, a tie to the even one.\<close>

definition round_half_even :: "real \<Rightarrow> int" where
  "round_half_even y =
     (let f = \<lfloor>y\<rfloor>; d = y - of_int f
      in if d < 1 / 2 then f else if 1 / 2 < d then f + 1 else if even f then f else f + 1)"

definition round2 :: "real \<Rightarrow> real" where
  "round2 x = of_int (round_half_even (x * 100)) / 100"

text \<open>The dict appended to \<^verbatim>\<open>results\<close>, one field per key.\<close>

record score_result =
  res_college_name :: pyval
  res_institution_type :: string
  res_image_url :: pyval
  res_website_url :: pyval
  res_scraping_status :: pyval
  res_TLR :: real
  res_RP :: real
  res_GO :: real
  res_OI :: real
  res_PR :: real
  res_Total :: real

text \<open>The body of \<^verbatim>\<open>for idx, r in enumerate(records):\<close>, lines 159 to 310.\<close>

definition second_loop_body ::
  "str_parser \<Rightarrow> weights_file \<Rightarrow> vectors \<Rightarrow> real \<Rightarrow> nat \<Rightarrow> pydict \<Rightarrow> py_error + score_result"
where
  "second_loop_body pf wfile st R_star idx r =
     ebind (py_index (computed_internals st) idx) (\<lambda>it.
     let F_total = i_F_total it;
         seats_N = safe_float_get pf r ''seats_N''
     in
     ebind (inst_type_of r) (\<lambda>inst_type.
     ebind (FSR_of inst_type F_total seats_N) (\<lambda>FSR.
     let FQE = FQE_of pf r in
     ebind (LL_of st inst_type it) (\<lambda>LL.
     let SEC = SEC_of pf r;
         TLR = FSR + FQE + LL + SEC
     in
     ebind (PU_of st it) (\<lambda>PU.
     ebind (CI_of st it) (\<lambda>CI.
     ebind (IPR_of pf st it r) (\<lambda>IPR.
     let RPII = PU + CI + IPR in
     ebind (GO_of pf st r) (\<lambda>GO.
     ebind (OI_of pf st r) (\<lambda>OI.
     ebind (PR_of pf it R_star r) (\<lambda>PR.
     ebind (total_score wfile TLR RPII GO OI PR) (\<lambda>total.
     Inr \<lparr>res_college_name = get r ''college_name'',
          res_institution_type = inst_type,
          res_image_url = get_default r ''image_url'' (PStr []),
          res_website_url = get_default r ''website_url'' (PStr []),
          res_scraping_status = get_default r ''scraping_status'' (PStr ''manual_input''),
          res_TLR = round2 TLR,
          res_RP = round2 RPII,
          res_GO = round2 GO,
          res_OI = round2 OI,
          res_PR = round2 PR,
          res_Total = round2 total\<rparr>)))))))))))"

fun second_loop ::
  "str_parser \<Rightarrow> weights_file \<Rightarrow> vectors \<Rightarrow> real \<Rightarrow> nat \<Rightarrow> pydict list
     \<Rightarrow> py_error + score_result list"
where
  "second_loop pf wfile st R_star idx [] = Inr []"
| "second_loop pf wfile st R_star idx (r # rs) =
     ebind (second_loop_body pf wfile st R_star idx r) (\<lambda>res.
     ebind (second_loop pf wfile st R_star (Suc idx) rs) (\<lambda>rest. Inr (res # rest)))"

text \<open>\<^verbatim>\<open>compute_scores(records)\<close>, with the string parser and the weights file it reads.\<close>

definition compute_scores ::
  "str_parser \<Rightarrow> weights_file \<Rightarrow> pydict list \<Rightarrow> py_error + score_result list" where
  "compute_scores pf wfile records =
     ebind (first_loop pf empty_vectors records) (\<lambda>st.
     ebind (R_star_of st) (\<lambda>R_star.
     second_loop pf wfile st R_star 0 records))"

subsection \<open>The values the guarded expressions compute\<close>

text \<open>
  Auxiliary functions for stating results: the number each guarded expression of the
  source evaluates to, and the contents of the lists after the first loop. The lemmas of
  the next section show that the embedded code returns exactly these values.
\<close>


definition ratio_or_one :: "real \<Rightarrow> real \<Rightarrow> real" where
  "ratio_or_one x d = x / (if d > 0 then d else 1)"

definition pct :: "real list \<Rightarrow> real \<Rightarrow> real" where
  "pct vs t =
     (if vs = [] then 0
      else real (length (filter (\<lambda>v. v \<le> t) vs)) / real (length vs) * 100)"

definition EXLI_value :: "str_parser \<Rightarrow> pydict \<Rightarrow> real" where
  "EXLI_value pf r =
     (if safe_float_get pf r ''seats_N'' > 0
      then safe_float_get pf r ''EXLIP'' / safe_float_get pf r ''seats_N''
         + 2 * safe_float_get pf r ''EXLIE'' / safe_float_get pf r ''seats_N''
      else 0)"

definition SR_value :: "str_parser \<Rightarrow> pydict \<Rightarrow> real" where
  "SR_value pf r =
     (if safe_float_get pf r ''sanctioned_S'' > 0
      then safe_float_get pf r ''applications_A'' / safe_float_get pf r ''sanctioned_S''
      else 0)"

definition internals_of :: "str_parser \<Rightarrow> pydict \<Rightarrow> internals" where
  "internals_of pf r =
     \<lparr>i_F_total = F_total_of pf r, i_P = P_of pf r, i_CC = CC_of pf r,
      i_EXLI_per_student = EXLI_value pf r,
      i_EXLB_per_student =
        EXLB_per_student_of (safe_float_get pf r ''EXLB'') (safe_float_get pf r ''seats_N''),
      i_SR_ratio = SR_value pf r\<rparr>"

definition vectors_of :: "str_parser \<Rightarrow> pydict list \<Rightarrow> vectors" where
  "vectors_of pf rs =
     \<lparr>P_list = map (\<lambda>r. ratio_or_one (P_of pf r) (F_total_of pf r)) rs,
      CC_over_F_list = map (\<lambda>r. ratio_or_one (CC_of pf r) (P_of pf r)) rs,
      PF_over_F_list =
        map (\<lambda>r. ratio_or_one (safe_float_get pf r ''PF_filed'') (F_total_of pf r)) rs,
      PG_over_F_list =
        map (\<lambda>r. ratio_or_one (safe_float_get pf r ''PG_granted'') (F_total_of pf r)) rs,
      EP_over_F_list =
        map (\<lambda>r. ratio_or_one (safe_float_get pf r ''EP_revenue'') (F_total_of pf r)) rs,
      EXLI_per_student_list = map (EXLI_value pf) rs,
      EXLB_per_student_list =
        map (\<lambda>r. EXLB_per_student_of (safe_float_get pf r ''EXLB'')
                  (safe_float_get pf r ''seats_N'')) rs,
      PE_index_list = map (\<lambda>r. safe_float_get pf r ''PE_index'') rs,
      CES_N_list = map (\<lambda>r. safe_float_get pf r ''CES_N'') rs,
      RD_other_states_list = map (\<lambda>r. safe_float_get pf r ''RD_other_states'') rs,
      RD_other_countries_list = map (\<lambda>r. safe_float_get pf r ''RD_other_countries'') rs,
      PR_SR_ratio_list = map (SR_value pf) rs,
      computed_internals = map (internals_of pf) rs\<rparr>"

definition vappend :: "vectors \<Rightarrow> vectors \<Rightarrow> vectors" where
  "vappend a b =
     \<lparr>P_list = P_list a @ P_list b,
      CC_over_F_list = CC_over_F_list a @ CC_over_F_list b,
      PF_over_F_list = PF_over_F_list a @ PF_over_F_list b,
      PG_over_F_list = PG_over_F_list a @ PG_over_F_list b,
      EP_over_F_list = EP_over_F_list a @ EP_over_F_list b,
      EXLI_per_student_list = EXLI_per_student_list a @ EXLI_per_student_list b,
      EXLB_per_student_list = EXLB_per_student_list a @ EXLB_per_student_list b,
      PE_index_list = PE_index_list a @ PE_index_list b,
      CES_N_list = CES_N_list a @ CES_N_list b,
      RD_other_states_list = RD_other_states_list a @ RD_other_states_list b,
      RD_other_countries_list = RD_other_countries_list a @ RD_other_countries_list b,
      PR_SR_ratio_list = PR_SR_ratio_list a @ PR_SR_ratio_list b,
      computed_internals = computed_internals a @ computed_internals b\<rparr>"

text \<open>The citation index of a record within a cohort, and its percentile rank among the
  citation indices of the cohort: the reading of the citation sub-score that ranks the
  index against indices.\<close>

definition citation_index :: "str_parser \<Rightarrow> pydict list \<Rightarrow> pydict \<Rightarrow> real" where
  "citation_index pf records r =
     ratio_or_one (CC_of pf r) (P_of pf r)
       * (pct (map (\<lambda>r'. ratio_or_one (P_of pf r') (F_total_of pf r')) records)
            (ratio_or_one (P_of pf r) (F_total_of pf r)) / 100)"

definition rank_among_indices :: "str_parser \<Rightarrow> pydict list \<Rightarrow> pydict \<Rightarrow> real" where
  "rank_among_indices pf records r =
     pct (map (citation_index pf records) records) (citation_index pf records r)"

text \<open>A weights file from which \<open>total_score\<close> can read every weight it multiplies
  with: the file is absent or fails to load, or the loaded mapping gives numbers for
  TLR, GO, OI and PR and, where it has RP (or else RPII), a number there too.\<close>

fun is_num :: "yval option \<Rightarrow> bool" where
  "is_num (Some (YNum x)) = True"
| "is_num (Some YOther) = False"
| "is_num None = False"

definition weights_usable :: "weights_file \<Rightarrow> bool" where
  "weights_usable wfile =
     (case weights_of wfile of
        YNotDict \<Rightarrow> False
      | YDict m \<Rightarrow>
          is_num (m ''TLR'') \<and> is_num (m ''GO'') \<and> is_num (m ''OI'') \<and> is_num (m ''PR'')
          \<and> (case m ''RP'' of Some v \<Rightarrow> is_num (Some v)
               | None \<Rightarrow> (case m ''RPII'' of Some v \<Rightarrow> is_num (Some v) | None \<Rightarrow> True)))"

subsection \<open>A sub-score of one record of a cohort\<close>

text \<open>The citation sub-score \<^verbatim>\<open>CI\<close> that \<^verbatim>\<open>compute_scores\<close> forms for the record at
  position \<open>idx\<close>: the first loop over the whole cohort, then lines 217 to 223 for that
  record.\<close>

definition CI_at :: "str_parser \<Rightarrow> pydict list \<Rightarrow> nat \<Rightarrow> py_error + real" where
  "CI_at pf records idx =
     ebind (first_loop pf empty_vectors records) (\<lambda>st.
     ebind (py_index (computed_internals st) idx) (\<lambda>it. CI_of st it))"

subsection \<open>Example inputs\<close>

text \<open>A record with no faculty, no publications, no seats and no sanctioned intake.\<close>

definition ex_zero_denominators :: pydict where
  "ex_zero_denominators =
     [''CCS'' \<mapsto> PNum 10, ''PF_filed'' \<mapsto> PNum 2, ''PG_granted'' \<mapsto> PNum 1,
      ''EP_revenue'' \<mapsto> PNum 7, ''EXLIP'' \<mapsto> PNum 5, ''applications_A'' \<mapsto> PNum 9]"

text \<open>Two institutions with one faculty member each: the first has publication score 1
  and citation score 4, the second publication score 2 and citation score 2.\<close>

definition ex_citation_cohort :: "pydict list" where
  "ex_citation_cohort =
     [[''F1'' \<mapsto> PNum 1, ''PS'' \<mapsto> PNum 2, ''CCS'' \<mapsto> PNum 8],
      [''F1'' \<mapsto> PNum 1, ''PS'' \<mapsto> PNum 4, ''CCS'' \<mapsto> PNum 4]]"

text \<open>A university A and a college B (its type left out).\<close>

definition ex_named_cohort :: "pydict list" where
  "ex_named_cohort =
     [[''college_name'' \<mapsto> PStr ''A'', ''institution_type'' \<mapsto> PStr ''university'',
       ''F1'' \<mapsto> PNum 100, ''seats_N'' \<mapsto> PNum 1000],
      [''college_name'' \<mapsto> PStr ''B'', ''F1'' \<mapsto> PNum 10, ''seats_N'' \<mapsto> PNum 1000]]"

text \<open>A weights file whose mapping has RP, GO, OI and PR but no TLR.\<close>

definition ex_weights_without_TLR :: weights_file where
  "ex_weights_without_TLR =
     Loads (YDict [''RP'' \<mapsto> YNum 30, ''GO'' \<mapsto> YNum 20, ''OI'' \<mapsto> YNum 10,
                   ''PR'' \<mapsto> YNum 10])"

text \<open>A cohort of one college named A.\<close>

definition ex_one_college :: "pydict list" where
  "ex_one_college = [[''college_name'' \<mapsto> PStr ''A'', ''institution_type'' \<mapsto> PStr ''college'']]"

text \<open>Two institutions without sanctioned intake.\<close>

definition ex_no_intake_cohort :: "pydict list" where
  "ex_no_intake_cohort =
     [[''applications_A'' \<mapsto> PNum 500, ''sanctioned_S'' \<mapsto> PNum 0],
      [''applications_A'' \<mapsto> PNum 20]]"

subsection \<open>Floats with NaN and the infinities\<close>

text \<open>
  \<^verbatim>\<open>float("nan")\<close> and \<^verbatim>\<open>float("inf")\<close> are floats, and \<^verbatim>\<open>safe_float\<close> lets them
  through. This part repeats \<^verbatim>\<open>safe_float\<close>, \<^verbatim>\<open>percentile\<close>, the first loop of
  \<^verbatim>\<open>compute_scores\<close> and the eleven percentile ranks of its second loop over a float
  type that has these values. Arithmetic on finite values stays exact; the special values
  follow IEEE 754: NaN is absorbing and compares false with everything, itself included.
\<close>

datatype pyfloat = Fin real | NaN | PInf | NInf

instantiation pyfloat :: "{plus, times, inverse, ord}"
begin

fun plus_pyfloat :: "pyfloat \<Rightarrow> pyfloat \<Rightarrow> pyfloat" where
  "Fin a + Fin b = Fin (a + b)"
| "NaN + y = NaN"
| "x + NaN = NaN"
| "PInf + NInf = NaN"
| "NInf + PInf = NaN"
| "PInf + y = PInf"
| "x + PInf = PInf"
| "NInf + y = NInf"
| "x + NInf = NInf"

fun times_pyfloat :: "pyfloat \<Rightarrow> pyfloat \<Rightarrow> pyfloat" where
  "Fin a * Fin b = Fin (a * b)"
| "NaN * y = NaN"
| "x * NaN = NaN"
| "PInf * Fin b = (if b = 0 then NaN else if 0 < b then PInf else NInf)"
| "NInf * Fin b = (if b = 0 then NaN else if 0 < b then NInf else PInf)"
| "Fin a * PInf = (if a = 0 then NaN else if 0 < a then PInf else NInf)"
| "Fin a * NInf = (if a = 0 then NaN else if 0 < a then NInf else PInf)"
| "PInf * PInf = PInf"
| "NInf * NInf = PInf"
| "PInf * NInf = NInf"
| "NInf * PInf = NInf"

fun divide_pyfloat :: "pyfloat \<Rightarrow> pyfloat \<Rightarrow> pyfloat" where
  "Fin a div Fin b = Fin (a / b)"
| "NaN div y = NaN"
| "x div NaN = NaN"
| "Fin a div PInf = Fin 0"
| "Fin a div NInf = Fin 0"
| "PInf div Fin b = (if 0 \<le> b then PInf else NInf)"
| "NInf div Fin b = (if 0 \<le> b then NInf else PInf)"
| "PInf div PInf = NaN"
| "PInf div NInf = NaN"
| "NInf div PInf = NaN"
| "NInf div NInf = NaN"

definition inverse_pyfloat :: "pyfloat \<Rightarrow> pyfloat" where
  "inverse_pyfloat x = Fin 1 div x"

fun less_eq_pyfloat :: "pyfloat \<Rightarrow> pyfloat \<Rightarrow> bool" where
  "Fin a \<le> Fin b = (a \<le> b)"
| "NaN \<le> y = False"
| "x \<le> NaN = False"
| "NInf \<le> y = True"
| "x \<le> PInf = True"
| "PInf \<le> y = False"
| "x \<le> NInf = False"

fun less_pyfloat :: "pyfloat \<Rightarrow> pyfloat \<Rightarrow> bool" where
  "Fin a < Fin b = (a < b)"
| "NaN < y = False"
| "x < NaN = False"
| "PInf < y = False"
| "x < NInf = False"
| "NInf < y = True"
| "x < PInf = True"

instance ..

end


text \<open>\<^verbatim>\<open>float()\<close> on text, a parameter as before; it may now answer NaN or an infinity. A
  number stored in a record is finite.\<close>

type_synonym float_parser = "string \<Rightarrow> pyfloat option"

text \<open>\<^verbatim>\<open>a / b\<close> raises ZeroDivisionError when \<^verbatim>\<open>b\<close> is zero, whatever \<^verbatim>\<open>a\<close> is.\<close>

definition py_div_f :: "pyfloat \<Rightarrow> pyfloat \<Rightarrow> py_error + pyfloat" where
  "py_div_f a b = (if b = Fin 0 then Inl ZeroDivisionError else Inr (a / b))"

fun py_float_f :: "float_parser \<Rightarrow> pyval \<Rightarrow> pyfloat option" where
  "py_float_f pf PNone = None"
| "py_float_f pf (PBool b) = Some (Fin (if b then 1 else 0))"
| "py_float_f pf (PNum x) = Some (Fin x)"
| "py_float_f pf (PStr s) = pf s"

definition safe_float_f :: "float_parser \<Rightarrow> pyval \<Rightarrow> pyfloat \<Rightarrow> pyfloat" where
  "safe_float_f pf val dflt =
     (if val = PNone \<or> val = PStr [] then dflt
      else case py_float_f pf val of None \<Rightarrow> dflt | Some x \<Rightarrow> x)"

definition safe_float_get_f :: "float_parser \<Rightarrow> pydict \<Rightarrow> string \<Rightarrow> pyfloat" where
  "safe_float_get_f pf r k = safe_float_f pf (get r k) (Fin 0.0)"

text \<open>
  \<^verbatim>\<open>sorted(values)\<close>, as a stable insertion by \<^verbatim>\<open><\<close>. With NaN among the values the
  order Python's sort leaves may differ; the result is a rearrangement of the values either
  way, and \<^verbatim>\<open>percentile\<close> reads only a count and the length of it.
\<close>

fun insort_f :: "pyfloat \<Rightarrow> pyfloat list \<Rightarrow> pyfloat list" where
  "insort_f x [] = [x]"
| "insort_f x (y # ys) = (if x < y then x # y # ys else y # insort_f x ys)"

definition sorted_f :: "pyfloat list \<Rightarrow> pyfloat list" where
  "sorted_f xs = foldr insort_f xs []"

text \<open>\<^verbatim>\<open>percentile\<close>, lines 56 to 62.\<close>

definition percentile_f :: "pyfloat list \<Rightarrow> pyfloat \<Rightarrow> py_error + pyfloat" where
  "percentile_f values target =
     (if values = [] then Inr (Fin 0.0)
      else
        let sorted_vals = sorted_f values;
            count_le = length (filter (\<lambda>v. v \<le> target) sorted_vals)
        in ebind (py_div_f (Fin (real count_le)) (Fin (real (length sorted_vals))))
             (\<lambda>q. Inr (q * Fin 100.0)))"

text \<open>The first loop, lines 92 to 153, with its dict of internals and its lists.\<close>

record internals_f =
  f_F_total :: pyfloat
  f_P :: pyfloat
  f_CC :: pyfloat
  f_EXLI_per_student :: pyfloat
  f_EXLB_per_student :: pyfloat
  f_SR_ratio :: pyfloat

record vectors_f =
  f_P_list :: "pyfloat list"
  f_CC_over_F_list :: "pyfloat list"
  f_PF_over_F_list :: "pyfloat list"
  f_PG_over_F_list :: "pyfloat list"
  f_EP_over_F_list :: "pyfloat list"
  f_EXLI_per_student_list :: "pyfloat list"
  f_EXLB_per_student_list :: "pyfloat list"
  f_PE_index_list :: "pyfloat list"
  f_CES_N_list :: "pyfloat list"
  f_RD_other_states_list :: "pyfloat list"
  f_RD_other_countries_list :: "pyfloat list"
  f_PR_SR_ratio_list :: "pyfloat list"
  f_computed_internals :: "internals_f list"

definition empty_vectors_f :: vectors_f where
  "empty_vectors_f =
     \<lparr>f_P_list = [], f_CC_over_F_list = [], f_PF_over_F_list = [], f_PG_over_F_list = [],
      f_EP_over_F_list = [], f_EXLI_per_student_list = [], f_EXLB_per_student_list = [],
      f_PE_index_list = [], f_CES_N_list = [], f_RD_other_states_list = [],
      f_RD_other_countries_list = [], f_PR_SR_ratio_list = [], f_computed_internals = []\<rparr>"

definition over_or_one_f :: "pyfloat \<Rightarrow> pyfloat \<Rightarrow> py_error + pyfloat" where
  "over_or_one_f x d = py_div_f x (if Fin 0 < d then d else Fin 1.0)"

definition first_loop_body_f :: "float_parser \<Rightarrow> vectors_f \<Rightarrow> pydict \<Rightarrow> py_error + vectors_f" where
  "first_loop_body_f pf st r =
     (let F1 = safe_float_get_f pf r ''F1'';
          F2 = safe_float_get_f pf r ''F2'';
          F_total = F1 + Fin 0.3 * F2;
          seats_N = safe_float_get_f pf r ''seats_N'';
          PW = safe_float_get_f pf r ''PW'';
          PS = safe_float_get_f pf r ''PS'';
          PG = safe_float_get_f pf r ''PG'';
          PI = safe_float_get_f pf r ''PI'';
          P = Fin 0.3 * PW + Fin 0.5 * PS + Fin 0.1 * PG + Fin 0.1 * PI;
          CCW = safe_float_get_f pf r ''CCW'';
          CCS = safe_float_get_f pf r ''CCS'';
          CCG = safe_float_get_f pf r ''CCG'';
          CCI = safe_float_get_f pf r ''CCI'';
          CC = Fin 0.3 * CCW + Fin 0.5 * CCS + Fin 0.1 * CCG + Fin 0.1 * CCI;
          PF = safe_float_get_f pf r ''PF_filed'';
          PG_granted = safe_float_get_f pf r ''PG_granted'';
          EP = safe_float_get_f pf r ''EP_revenue'';
          EXLIP = safe_float_get_f pf r ''EXLIP'';
          EXLIE = safe_float_get_f pf r ''EXLIE'';
          EXLB = safe_float_get_f pf r ''EXLB''
      in
      ebind (if Fin 0 < seats_N
             then ebind (py_div_f EXLIP seats_N) (\<lambda>a.
                  ebind (py_div_f (Fin 2.0 * EXLIE) seats_N) (\<lambda>b. Inr (a + b, EXLB)))
             else Inr (Fin 0.0, Fin 0.0)) (\<lambda>(EXLI_per_student, EXLB_per_student).
      let pe_index = safe_float_get_f pf r ''PE_index'';
          CES_N = safe_float_get_f pf r ''CES_N'';
          RD_other_states = safe_float_get_f pf r ''RD_other_states'';
          RD_other_countries = safe_float_get_f pf r ''RD_other_countries'';
          A_apps = safe_float_get_f pf r ''applications_A'';
          S_intake = safe_float_get_f pf r ''sanctioned_S''
      in
      ebind (if Fin 0 < S_intake then py_div_f A_apps S_intake else Inr (Fin 0.0)) (\<lambda>SR_ratio.
      ebind (over_or_one_f P F_total) (\<lambda>e1.
      ebind (over_or_one_f CC P) (\<lambda>e2.
      ebind (over_or_one_f PF F_total) (\<lambda>e3.
      ebind (over_or_one_f PG_granted F_total) (\<lambda>e4.
      ebind (over_or_one_f EP F_total) (\<lambda>e5.
      Inr \<lparr>f_P_list = f_P_list st @ [e1],
           f_CC_over_F_list = f_CC_over_F_list st @ [e2],
           f_PF_over_F_list = f_PF_over_F_list st @ [e3],
           f_PG_over_F_list = f_PG_over_F_list st @ [e4],
           f_EP_over_F_list = f_EP_over_F_list st @ [e5],
           f_EXLI_per_student_list = f_EXLI_per_student_list st @ [EXLI_per_student],
           f_EXLB_per_student_list = f_EXLB_per_student_list st @ [EXLB_per_student],
           f_PE_index_list = f_PE_index_list st @ [pe_index],
           f_CES_N_list = f_CES_N_list st @ [CES_N],
           f_RD_other_states_list = f_RD_other_states_list st @ [RD_other_states],
           f_RD_other_countries_list = f_RD_other_countries_list st @ [RD_other_countries],
           f_PR_SR_ratio_list = f_PR_SR_ratio_list st @ [SR_ratio],
           f_computed_internals = f_computed_internals st @
             [\<lparr>f_F_total = F_total, f_P = P, f_CC = CC,
               f_EXLI_per_student = EXLI_per_student,
               f_EXLB_per_student = EXLB_per_student,
               f_SR_ratio = SR_ratio\<rparr>]\<rparr>))))))))"

fun first_loop_f :: "float_parser \<Rightarrow> vectors_f \<Rightarrow> pydict list \<Rightarrow> py_error + vectors_f" where
  "first_loop_f pf st [] = Inr st"
| "first_loop_f pf st (r # rs) =
     ebind (first_loop_body_f pf st r) (\<lambda>st'. first_loop_f pf st' rs)"

text \<open>The eleven percentile ranks of the second loop: lines 191, 192, 213, 220 to 222, 229,
  230, 232, 241, 247, 248 and 249.\<close>

definition p_EXLI_f :: "vectors_f \<Rightarrow> internals_f \<Rightarrow> py_error + pyfloat" where
  "p_EXLI_f st it = percentile_f (f_EXLI_per_student_list st) (f_EXLI_per_student it)"

definition p_EXLB_f :: "vectors_f \<Rightarrow> internals_f \<Rightarrow> py_error + pyfloat" where
  "p_EXLB_f st it = percentile_f (f_EXLB_per_student_list st) (f_EXLB_per_student it)"

definition p_pub_f :: "vectors_f \<Rightarrow> internals_f \<Rightarrow> py_error + pyfloat" where
  "p_pub_f st it =
     ebind (over_or_one_f (f_P it) (f_F_total it)) (\<lambda>P_over_F. percentile_f (f_P_list st) P_over_F)"

definition p_citation_f :: "vectors_f \<Rightarrow> internals_f \<Rightarrow> py_error + pyfloat" where
  "p_citation_f st it =
     (let CC = f_CC it; P_val = f_P it in
      ebind (over_or_one_f (f_P it) (f_F_total it)) (\<lambda>P_over_F.
      ebind (percentile_f (f_P_list st) P_over_F) (\<lambda>p_P.
      ebind (over_or_one_f CC P_val) (\<lambda>q.
      let base_citation_index = q * (p_P / Fin 100.0)
      in percentile_f (f_CC_over_F_list st) base_citation_index))))"

definition p_PF_f :: "float_parser \<Rightarrow> vectors_f \<Rightarrow> internals_f \<Rightarrow> pydict \<Rightarrow> py_error + pyfloat" where
  "p_PF_f pf st it r =
     ebind (over_or_one_f (safe_float_get_f pf r ''PF_filed'') (f_F_total it))
       (percentile_f (f_PF_over_F_list st))"

definition p_PG_f :: "float_parser \<Rightarrow> vectors_f \<Rightarrow> internals_f \<Rightarrow> pydict \<Rightarrow> py_error + pyfloat" where
  "p_PG_f pf st it r =
     ebind (over_or_one_f (safe_float_get_f pf r ''PG_granted'') (f_F_total it))
       (percentile_f (f_PG_over_F_list st))"

definition p_EP_f :: "float_parser \<Rightarrow> vectors_f \<Rightarrow> internals_f \<Rightarrow> pydict \<Rightarrow> py_error + pyfloat" where
  "p_EP_f pf st it r =
     ebind (over_or_one_f (safe_float_get_f pf r ''EP_revenue'') (f_F_total it))
       (percentile_f (f_EP_over_F_list st))"

definition p_pe_f :: "float_parser \<Rightarrow> vectors_f \<Rightarrow> pydict \<Rightarrow> py_error + pyfloat" where
  "p_pe_f pf st r = percentile_f (f_PE_index_list st) (safe_float_get_f pf r ''PE_index'')"

definition p_CES_f :: "float_parser \<Rightarrow> vectors_f \<Rightarrow> pydict \<Rightarrow> py_error + pyfloat" where
  "p_CES_f pf st r = percentile_f (f_CES_N_list st) (safe_float_get_f pf r ''CES_N'')"

definition p_RD_states_f :: "float_parser \<Rightarrow> vectors_f \<Rightarrow> pydict \<Rightarrow> py_error + pyfloat" where
  "p_RD_states_f pf st r =
     percentile_f (f_RD_other_states_list st) (safe_float_get_f pf r ''RD_other_states'')"

definition p_RD_countries_f :: "float_parser \<Rightarrow> vectors_f \<Rightarrow> pydict \<Rightarrow> py_error + pyfloat" where
  "p_RD_countries_f pf st r =
     percentile_f (f_RD_other_countries_list st) (safe_float_get_f pf r ''RD_other_countries'')"

text \<open>Example: the placement index typed as the text nan, which \<^verbatim>\<open>float()\<close> accepts.\<close>

definition ex_nan_parser :: float_parser where
  "ex_nan_parser s = (if s = ''nan'' then Some NaN else None)"

definition ex_nan_record :: pydict where
  "ex_nan_record = [''college_name'' \<mapsto> PStr ''A'', ''PE_index'' \<mapsto> PStr ''nan'']"

text \<open>The placement-index percentile \<^verbatim>\<open>p_pe\<close> of a record within a cohort: the first
  loop over the cohort, then line 241.\<close>

definition placement_percentile_f :: "float_parser \<Rightarrow> pydict list \<Rightarrow> pydict \<Rightarrow> py_error + pyfloat" where
  "placement_percentile_f pf records r =
     ebind (first_loop_f pf empty_vectors_f records) (\<lambda>st. p_pe_f pf st r)"

text \<open>Example: a record with finite values, one of them entered as text.\<close>

definition ex_finite_record :: pydict where
  "ex_finite_record =
     [''F1'' \<mapsto> PNum 10, ''seats_N'' \<mapsto> PNum 100, ''PS'' \<mapsto> PNum 4, ''CCS'' \<mapsto> PNum 6,
      ''EXLIP'' \<mapsto> PNum 500, ''PE_index'' \<mapsto> PStr ''7.5'']"

definition ex_decimal_parser :: float_parser where
  "ex_decimal_parser s =
     (if s = ''nan'' then Some NaN else if s = ''7.5'' then Some (Fin 7.5) else None)"

text \<open>Auxiliary functions for stating results: the values of the guarded expressions
  and the lists after the first loop over one record.\<close>

definition ratio_or_one_f :: "pyfloat \<Rightarrow> pyfloat \<Rightarrow> pyfloat" where
  "ratio_or_one_f x d = x / (if Fin 0 < d then d else Fin 1)"

definition pct_f :: "pyfloat list \<Rightarrow> pyfloat \<Rightarrow> pyfloat" where
  "pct_f vs t =
     (if vs = [] then Fin 0
      else Fin (real (length (filter (\<lambda>v. v \<le> t) vs)) / real (length vs) * 100))"

definition F_total_f :: "float_parser \<Rightarrow> pydict \<Rightarrow> pyfloat" where
  "F_total_f pf r = safe_float_get_f pf r ''F1'' + Fin 0.3 * safe_float_get_f pf r ''F2''"

definition P_f :: "float_parser \<Rightarrow> pydict \<Rightarrow> pyfloat" where
  "P_f pf r =
     Fin 0.3 * safe_float_get_f pf r ''PW'' + Fin 0.5 * safe_float_get_f pf r ''PS''
       + Fin 0.1 * safe_float_get_f pf r ''PG'' + Fin 0.1 * safe_float_get_f pf r ''PI''"

definition CC_f :: "float_parser \<Rightarrow> pydict \<Rightarrow> pyfloat" where
  "CC_f pf r =
     Fin 0.3 * safe_float_get_f pf r ''CCW'' + Fin 0.5 * safe_float_get_f pf r ''CCS''
       + Fin 0.1 * safe_float_get_f pf r ''CCG'' + Fin 0.1 * safe_float_get_f pf r ''CCI''"

definition EXLI_f :: "float_parser \<Rightarrow> pydict \<Rightarrow> pyfloat" where
  "EXLI_f pf r =
     (if Fin 0 < safe_float_get_f pf r ''seats_N''
      then safe_float_get_f pf r ''EXLIP'' / safe_float_get_f pf r ''seats_N''
         + Fin 2 * safe_float_get_f pf r ''EXLIE'' / safe_float_get_f pf r ''seats_N''
      else Fin 0)"

definition EXLB_f :: "float_parser \<Rightarrow> pydict \<Rightarrow> pyfloat" where
  "EXLB_f pf r =
     (if Fin 0 < safe_float_get_f pf r ''seats_N'' then safe_float_get_f pf r ''EXLB''
      else Fin 0)"

definition SR_f :: "float_parser \<Rightarrow> pydict \<Rightarrow> pyfloat" where
  "SR_f pf r =
     (if Fin 0 < safe_float_get_f pf r ''sanctioned_S''
      then safe_float_get_f pf r ''applications_A'' / safe_float_get_f pf r ''sanctioned_S''
      else Fin 0)"

definition internals_f_of :: "float_parser \<Rightarrow> pydict \<Rightarrow> internals_f" where
  "internals_f_of pf r =
     \<lparr>f_F_total = F_total_f pf r, f_P = P_f pf r, f_CC = CC_f pf r,
      f_EXLI_per_student = EXLI_f pf r, f_EXLB_per_student = EXLB_f pf r,
      f_SR_ratio = SR_f pf r\<rparr>"

definition one_record_vectors :: "float_parser \<Rightarrow> pydict \<Rightarrow> vectors_f" where
  "one_record_vectors pf r =
     \<lparr>f_P_list = [ratio_or_one_f (P_f pf r) (F_total_f pf r)],
      f_CC_over_F_list = [ratio_or_one_f (CC_f pf r) (P_f pf r)],
      f_PF_over_F_list = [ratio_or_one_f (safe_float_get_f pf r ''PF_filed'') (F_total_f pf r)],
      f_PG_over_F_list = [ratio_or_one_f (safe_float_get_f pf r ''PG_granted'') (F_total_f pf r)],
      f_EP_over_F_list = [ratio_or_one_f (safe_float_get_f pf r ''EP_revenue'') (F_total_f pf r)],
      f_EXLI_per_student_list = [EXLI_f pf r],
      f_EXLB_per_student_list = [EXLB_f pf r],
      f_PE_index_list = [safe_float_get_f pf r ''PE_index''],
      f_CES_N_list = [safe_float_get_f pf r ''CES_N''],
      f_RD_other_states_list = [safe_float_get_f pf r ''RD_other_states''],
      f_RD_other_countries_list = [safe_float_get_f pf r ''RD_other_countries''],
      f_PR_SR_ratio_list = [SR_f pf r],
      f_computed_internals = [internals_f_of pf r]\<rparr>"

section \<open>Properties\<close>

subsection \<open>The guarded expressions never raise\<close>

lemma ebind_Inr [simp]: "ebind (Inr v) f = f v" by (simp add: ebind_def)
lemma ebind_Inl [simp]: "ebind (Inl e) f = Inl e" by (simp add: ebind_def)
lemma py_div_ok: "b \<noteq> 0 \<Longrightarrow> py_div a b = Inr (a / b)" by (simp add: py_div_def)

lemma length_filter_insort:
  "length (filter Q (insort_key f x xs)) = length (filter Q (x # xs))"
  by (induction xs) auto

lemma length_filter_sort: "length (filter Q (sort_key f xs)) = length (filter Q xs)"
  by (induction xs) (auto simp: length_filter_insort)

lemma percentile_value [simp]: "percentile vs t = Inr (pct vs t)"
  by (simp add: percentile_def pct_def Let_def py_div_ok length_filter_sort)

lemma over_or_one_value [simp]: "over_or_one x d = Inr (ratio_or_one x d)"
  by (simp add: over_or_one_def ratio_or_one_def py_div_ok)

lemma EXLI_per_student_value:
  "EXLI_per_student_of (safe_float_get pf r ''EXLIP'') (safe_float_get pf r ''EXLIE'')
     (safe_float_get pf r ''seats_N'') = Inr (EXLI_value pf r)"
  by (simp add: EXLI_per_student_of_def EXLI_value_def py_div_ok)

lemma SR_ratio_value:
  "SR_ratio_of (safe_float_get pf r ''applications_A'') (safe_float_get pf r ''sanctioned_S'')
     = Inr (SR_value pf r)"
  by (simp add: SR_ratio_of_def SR_value_def py_div_ok)

lemma first_loop_body_value:
  "first_loop_body pf st r = Inr (vappend st (vectors_of pf [r]))"
  by (simp add: first_loop_body_def Let_def EXLI_per_student_value SR_ratio_value
        vappend_def vectors_of_def internals_of_def)

lemma vappend_assoc: "vappend (vappend a b) c = vappend a (vappend b c)"
  by (simp add: vappend_def)

lemma vectors_of_Cons: "vectors_of pf (r # rs) = vappend (vectors_of pf [r]) (vectors_of pf rs)"
  by (simp add: vappend_def vectors_of_def)

lemma vectors_of_Nil: "vectors_of pf [] = empty_vectors"
  by (simp add: empty_vectors_def vectors_of_def)

lemma vappend_empty: "vappend st empty_vectors = st" "vappend empty_vectors st = st"
  by (simp_all add: vappend_def empty_vectors_def)

lemma first_loop_value: "first_loop pf st rs = Inr (vappend st (vectors_of pf rs))"
proof (induction rs arbitrary: st)
  case Nil
  show ?case by (simp add: vectors_of_Nil vappend_empty)
next
  case (Cons r rs)
  show ?case
    by (simp add: first_loop_body_value Cons.IH vappend_assoc vectors_of_Cons [of pf r rs])
qed

lemma first_loop_vectors: "first_loop pf empty_vectors rs = Inr (vectors_of pf rs)"
  by (simp add: first_loop_value vappend_empty)

lemma F_over_N_value: "F_over_N_of F s = Inr (if s > 0 then F / s else 0)"
  by (simp add: F_over_N_of_def py_div_ok)

lemma FSR_value:
  "FSR_of ty F s =
     Inr (if (if s > 0 then F / s else 0) < 1 / 50 then 0
          else if ty = ''university'' then 300 * (F / s) else 600 * (F / s))"
  by (simp add: FSR_of_def F_over_N_value Let_def)

lemma SR_of_value: "SR_of s R = Inr (50 * (if R > 0 then s / R else 0))"
  by (simp add: SR_of_def py_div_ok)

lemma LL_returns: "\<exists>v. LL_of st ty it = Inr v"
  unfolding LL_of_def p_EXLI_of_def p_EXLB_of_def Let_def percentile_value ebind_Inr
  by blast

lemma PU_returns: "\<exists>v. PU_of st it = Inr v"
  unfolding PU_of_def p_pub_of_def P_over_F_of_def over_or_one_value percentile_value ebind_Inr
  by blast

lemma CI_returns: "\<exists>v. CI_of st it = Inr v"
  unfolding CI_of_def p_citation_of_def base_citation_index_of_def P_over_F_of_def Let_def
    over_or_one_value percentile_value ebind_Inr
  by blast

lemma IPR_returns: "\<exists>v. IPR_of pf st it r = Inr v"
  unfolding IPR_of_def p_PF_of_def p_PG_of_def p_EP_of_def Let_def
    over_or_one_value percentile_value ebind_Inr
  by blast

lemma GO_returns: "\<exists>v. GO_of pf st r = Inr v"
  unfolding GO_of_def p_pe_of_def Let_def percentile_value ebind_Inr
  by blast

lemma OI_returns: "\<exists>v. OI_of pf st r = Inr v"
  unfolding OI_of_def p_CES_of_def p_RD_states_of_def p_RD_countries_of_def Let_def
    percentile_value ebind_Inr
  by blast

lemma PR_returns: "\<exists>v. PR_of pf it R r = Inr v"
  unfolding PR_of_def SR_of_value Let_def ebind_Inr
  by blast

subsection \<open>The second loop returns\<close>

lemma is_num_iff: "is_num v \<longleftrightarrow> (\<exists>x. v = Some (YNum x))"
  by (cases v rule: is_num.cases) auto

lemma total_score_returns:
  assumes "weights_usable wfile"
  shows "\<exists>t. total_score wfile a b c d e = Inr t"
proof (cases "weights_of wfile")
  case YNotDict
  with assms show ?thesis by (simp add: weights_usable_def)
next
  case (YDict m)
  with assms obtain x1 x3 x4 x5 where
    m: "m ''TLR'' = Some (YNum x1)" "m ''GO'' = Some (YNum x3)"
       "m ''OI'' = Some (YNum x4)" "m ''PR'' = Some (YNum x5)"
    by (auto simp: weights_usable_def is_num_iff)
  from assms YDict have
    rp: "case m ''RP'' of Some v \<Rightarrow> is_num (Some v)
         | None \<Rightarrow> (case m ''RPII'' of Some v \<Rightarrow> is_num (Some v) | None \<Rightarrow> True)"
    by (simp add: weights_usable_def)
  have "\<not> isl (total_score wfile a b c d e)"
    using rp
    by (auto simp: total_score_def YDict subscript_def m ydoc_get_def py_mul_def Let_def
          is_num_iff split: option.splits)
  then show ?thesis
    by (cases "total_score wfile a b c d e") auto
qed

lemma py_max_zero:
  assumes "xs \<noteq> []" "\<forall>x\<in>set xs. x = 0"
  shows "py_max xs = Inr 0"
proof -
  have f: "\<forall>x\<in>set ys. x = 0 \<Longrightarrow> fold (\<lambda>v m. if m < v then v else m) ys (0::real) = 0" for ys
    by (induction ys) auto
  from assms show ?thesis by (cases xs) (auto simp: f)
qed

lemma R_star_returns: "\<exists>R. R_star_of st = Inr R"
  by (cases "PR_SR_ratio_list st") (simp_all add: R_star_of_def)

lemma second_loop_body_returns:
  assumes "idx < length (computed_internals st)"
    and "inst_type_of r \<noteq> Inl AttributeError"
    and "weights_usable wfile"
  shows "\<exists>res. second_loop_body pf wfile st R idx r = Inr res
           \<and> res_college_name res = get r ''college_name''"
proof -
  define it where "it = computed_internals st ! idx"
  have ix: "py_index (computed_internals st) idx = Inr it"
    using assms(1) by (simp add: py_index_def it_def)
  have "\<exists>ty. inst_type_of r = Inr ty"
    using assms(2) by (auto simp: inst_type_of_def Let_def split: pyval.splits if_splits)
  then obtain ty where ty: "inst_type_of r = Inr ty" ..
  obtain FSR where FSR: "FSR_of ty (i_F_total it) (safe_float_get pf r ''seats_N'') = Inr FSR"
    by (simp add: FSR_value)
  obtain LL where LL: "LL_of st ty it = Inr LL" using LL_returns by blast
  obtain PU where PU: "PU_of st it = Inr PU" using PU_returns by blast
  obtain CI where CI: "CI_of st it = Inr CI" using CI_returns by blast
  obtain IPR where IPR: "IPR_of pf st it r = Inr IPR" using IPR_returns by blast
  obtain GO where GO: "GO_of pf st r = Inr GO" using GO_returns by blast
  obtain OI where OI: "OI_of pf st r = Inr OI" using OI_returns by blast
  obtain PR where PR: "PR_of pf it R r = Inr PR" using PR_returns by blast
  obtain t where t:
    "total_score wfile (FSR + FQE_of pf r + LL + SEC_of pf r) (PU + CI + IPR) GO OI PR = Inr t"
    using total_score_returns [OF assms(3)] by blast
  show ?thesis
    by (simp add: second_loop_body_def ix ty FSR LL PU CI IPR GO OI PR t Let_def)
qed

lemma second_loop_returns:
  assumes "idx + length rs \<le> length (computed_internals st)"
    and "\<forall>r\<in>set rs. inst_type_of r \<noteq> Inl AttributeError"
    and "weights_usable wfile"
  shows "\<exists>out. second_loop pf wfile st R idx rs = Inr out
           \<and> map res_college_name out = map (\<lambda>r. get r ''college_name'') rs"
  using assms(1,2)
proof (induction rs arbitrary: idx)
  case Nil
  show ?case by simp
next
  case (Cons r rs)
  from Cons.prems obtain res where
    res: "second_loop_body pf wfile st R idx r = Inr res"
         "res_college_name res = get r ''college_name''"
    using second_loop_body_returns [of idx st r wfile pf R] assms(3) by auto
  from Cons.prems obtain rest where
    rest: "second_loop pf wfile st R (Suc idx) rs = Inr rest"
          "map res_college_name rest = map (\<lambda>r. get r ''college_name'') rs"
    using Cons.IH [of "Suc idx"] by auto
  show ?case by (simp add: res rest)
qed

lemma computed_internals_vectors_of:
  "computed_internals (vectors_of pf rs) = map (internals_of pf) rs"
  by (simp add: vectors_of_def)

subsection \<open>Percentile rank\<close>

lemma length_filter_mono:
  "(\<And>x. P x \<Longrightarrow> Q x) \<Longrightarrow> length (filter P xs) \<le> length (filter Q xs)"
  by (induction xs) auto

lemma pct_mono: "t1 \<le> t2 \<Longrightarrow> pct vs t1 \<le> pct vs t2"
proof -
  assume le: "t1 \<le> t2"
  have "length (filter (\<lambda>v. v \<le> t1) vs) \<le> length (filter (\<lambda>v. v \<le> t2) vs)"
    using le by (intro length_filter_mono) simp
  then have "real (length (filter (\<lambda>v. v \<le> t1) vs)) / real (length vs)
               \<le> real (length (filter (\<lambda>v. v \<le> t2) vs)) / real (length vs)"
    by (intro divide_right_mono) simp_all
  then have "real (length (filter (\<lambda>v. v \<le> t1) vs)) / real (length vs) * 100
               \<le> real (length (filter (\<lambda>v. v \<le> t2) vs)) / real (length vs) * 100"
    by (intro mult_right_mono) simp_all
  then show ?thesis unfolding pct_def by simp
qed

lemma pct_singleton: "pct [v] v = 100"
  by (simp add: pct_def)

text \<open>
  Claim C7. For a fixed population, a smaller target never has a greater percentile rank:
  both calls of \<open>percentile\<close> return, and the rank at \<open>target1\<close> is at most the rank at
  \<open>target2\<close> whenever \<open>target1 < target2\<close>.
\<close>

theorem percentile_monotone:
  assumes "target1 < target2"
  shows "\<exists>p1 p2. percentile population target1 = Inr p1
           \<and> percentile population target2 = Inr p2 \<and> p1 \<le> p2"
  using assms by (simp add: pct_mono)

theorem percentile_monotone_witness:
  "(1::real) < 2 \<and> (\<exists>p1 p2. percentile [1, 2, 3] 1 = Inr p1
       \<and> percentile [1, 2, 3] 2 = Inr p2 \<and> p1 \<le> p2)"
  using percentile_monotone [of 1 2 "[1, 2, 3]"] by simp

subsection \<open>The faculty-ratio sub-score\<close>

text \<open>
  Claim C5. Floor rule: when the faculty-to-seat ratio \<open>F_over_N\<close> that the engine forms is
  below 1/50, the FSR component is exactly 0, for every institution type and every
  effective faculty strength and seat count; no other field and no other record of the
  cohort enters \<open>FSR_of\<close>.
\<close>

theorem FSR_floor:
  assumes "F_over_N_of F_total seats_N = Inr q" and "q < 1 / 50"
  shows "FSR_of inst_type F_total seats_N = Inr 0"
  using assms by (auto simp: FSR_value F_over_N_value split: if_splits)

theorem FSR_floor_witness:
  "F_over_N_of 10 1000 = Inr (1 / 100) \<and> (1 / 100 :: real) < 1 / 50
     \<and> FSR_of ''university'' 10 1000 = Inr 0 \<and> FSR_of ''college'' 10 1000 = Inr 0"
proof -
  have a: "F_over_N_of 10 1000 = Inr (1 / 100)" by (simp add: F_over_N_value)
  have b: "(1 / 100 :: real) < 1 / 50" by simp
  show ?thesis using a b FSR_floor [OF a b] by simp
qed

text \<open>The same in terms of the quotient itself, wherever the seat count is not zero (a
  negative seat count makes \<open>F_over_N\<close> 0, which is below the floor too).\<close>

lemma FSR_floor_quotient:
  "seats_N \<noteq> 0 \<Longrightarrow> F_total / seats_N < 1 / 50 \<Longrightarrow> FSR_of inst_type F_total seats_N = Inr 0"
  by (simp add: FSR_value)

text \<open>
  Claim C8. A record whose seat count is 0 and whose sanctioned intake is 0 gets the
  faculty-ratio sub-score 0 and the application/seat ratio 0: both computations return a
  number (\<open>Inr\<close>), so no division is attempted with a zero divisor.
\<close>

theorem zero_seats_zero_scores:
  assumes "safe_float_get pf r ''seats_N'' = 0"
    and "safe_float_get pf r ''sanctioned_S'' = 0"
  shows "FSR_of inst_type F_total (safe_float_get pf r ''seats_N'') = Inr 0
     \<and> SR_ratio_of (safe_float_get pf r ''applications_A'')
          (safe_float_get pf r ''sanctioned_S'') = Inr 0"
  using assms by (simp add: FSR_value SR_ratio_of_def)

theorem zero_seats_zero_scores_witness:
  "safe_float_get Map.empty [''F1'' \<mapsto> PNum 40, ''applications_A'' \<mapsto> PNum 700] ''seats_N'' = 0
   \<and> safe_float_get Map.empty [''F1'' \<mapsto> PNum 40, ''applications_A'' \<mapsto> PNum 700]
        ''sanctioned_S'' = 0
   \<and> FSR_of ''university'' 40 0 = Inr 0
   \<and> SR_ratio_of 700 0 = Inr 0"
proof -
  let ?r = "[''F1'' \<mapsto> PNum 40, ''applications_A'' \<mapsto> PNum 700]"
  have a: "safe_float_get Map.empty ?r ''seats_N'' = 0"
    by (simp add: safe_float_get_def get_def safe_float_def)
  have b: "safe_float_get Map.empty ?r ''sanctioned_S'' = 0"
    by (simp add: safe_float_get_def get_def safe_float_def)
  have c: "safe_float_get Map.empty ?r ''applications_A'' = 700"
    by (simp add: safe_float_get_def get_def safe_float_def)
  show ?thesis
    using zero_seats_zero_scores [OF a b, of "''university''" 40] a b c by simp
qed




subsection \<open>Weights and the total score\<close>

text \<open>
  What the total does with the weights file: the defaults when the file is absent or
  fails to load; the default 30 for RP alone when the mapping has neither RP nor RPII;
  TypeError when the loaded document is not a mapping.
\<close>

lemma total_score_defaults:
  "wfile = NoFile \<or> wfile = LoadFails \<Longrightarrow>
   total_score wfile TLR RPII GO OI PR =
     Inr ((TLR * 30 + RPII * 30 + GO * 20 + OI * 10 + PR * 10) / 100)"
  by (auto simp: total_score_def weights_of_def default_weights_def subscript_def
        ydoc_get_def py_mul_def)

lemma total_score_RP_fallback:
  "total_score
     (Loads (YDict [''TLR'' \<mapsto> YNum 40, ''GO'' \<mapsto> YNum 20, ''OI'' \<mapsto> YNum 10,
                    ''PR'' \<mapsto> YNum 10]))
     TLR RPII GO OI PR = Inr ((TLR * 40 + RPII * 30 + GO * 20 + OI * 10 + PR * 10) / 100)"
  by (simp add: total_score_def weights_of_def subscript_def ydoc_get_def py_mul_def)

lemma total_score_not_a_mapping:
  "total_score (Loads YNotDict) TLR RPII GO OI PR = Inl TypeError"
  by (simp add: total_score_def weights_of_def subscript_def)

text \<open>
  Claim C2 says that a weights mapping without the key TLR still yields a total, with the
  default 30 in place of the missing weight. The code at that input: the mapping below
  has RP, GO, OI and PR but no TLR, and \<^verbatim>\<open>weights["TLR"]\<close> raises KeyError, for
  every value of the five sub-scores.
\<close>

theorem total_score_missing_TLR:
  "total_score
     (Loads (YDict [''RP'' \<mapsto> YNum 30, ''GO'' \<mapsto> YNum 20, ''OI'' \<mapsto> YNum 10,
                    ''PR'' \<mapsto> YNum 10]))
     TLR RPII GO OI PR = Inl KeyError"
  by (simp add: total_score_def weights_of_def subscript_def)


subsection \<open>The first loop and its guards\<close>

text \<open>
  Claim C1, as stated, fails for two of its seven ratios. With seat count 0, physical
  library expenditure 5 and electronic expenditure 0 the library-items-per-student value is
  0, not the numerator 5; with sanctioned intake 0 and 9 applications the application/seat
  ratio is 0, not 9. These two guards put 0 in place of the ratio; they do not put 1.0 in
  place of the denominator.
\<close>

theorem EXLI_guard_counterexample:
  "EXLI_per_student_of 5 0 0 = Inr 0 \<and> (5::real) + 2 * 0 \<noteq> 0
     \<and> SR_ratio_of 9 0 = Inr 0 \<and> (9::real) \<noteq> 0"
  by (simp add: EXLI_per_student_of_def SR_ratio_of_def)

text \<open>
  Claim C1, amended. After the first loop, for the record at position \<open>i\<close>: when the
  effective faculty is not positive, the entries of \<^verbatim>\<open>P_list\<close>, \<^verbatim>\<open>PF_over_F_list\<close>,
  \<^verbatim>\<open>PG_over_F_list\<close> and \<^verbatim>\<open>EP_over_F_list\<close> are the numerators themselves (publication
  score, patents filed, patents granted, patent revenue); when the publication score is
  not positive, the entry of \<^verbatim>\<open>CC_over_F_list\<close> is the citation score; when the seat
  count is not positive, library-items-per-student is 0; when the sanctioned intake is not
  positive, the application/seat ratio is 0. The loop returns for every cohort.
\<close>

theorem first_loop_zero_denominators:
  assumes "i < length records"
  shows "\<exists>st. first_loop pf empty_vectors records = Inr st
     \<and> (F_total_of pf (records ! i) \<le> 0 \<longrightarrow>
          P_list st ! i = P_of pf (records ! i)
        \<and> PF_over_F_list st ! i = safe_float_get pf (records ! i) ''PF_filed''
        \<and> PG_over_F_list st ! i = safe_float_get pf (records ! i) ''PG_granted''
        \<and> EP_over_F_list st ! i = safe_float_get pf (records ! i) ''EP_revenue'')
     \<and> (P_of pf (records ! i) \<le> 0 \<longrightarrow> CC_over_F_list st ! i = CC_of pf (records ! i))
     \<and> (safe_float_get pf (records ! i) ''seats_N'' \<le> 0 \<longrightarrow>
          EXLI_per_student_list st ! i = 0)
     \<and> (safe_float_get pf (records ! i) ''sanctioned_S'' \<le> 0 \<longrightarrow>
          PR_SR_ratio_list st ! i = 0)"
  using assms
  by (simp add: first_loop_vectors vectors_of_def ratio_or_one_def EXLI_value_def SR_value_def)

theorem first_loop_zero_denominators_witness:
  "F_total_of Map.empty ex_zero_denominators \<le> 0
   \<and> P_of Map.empty ex_zero_denominators \<le> 0
   \<and> safe_float_get Map.empty ex_zero_denominators ''seats_N'' \<le> 0
   \<and> safe_float_get Map.empty ex_zero_denominators ''sanctioned_S'' \<le> 0
   \<and> (\<exists>st. first_loop Map.empty empty_vectors [ex_zero_denominators] = Inr st
        \<and> P_list st ! 0 = 0 \<and> PF_over_F_list st ! 0 = 2 \<and> PG_over_F_list st ! 0 = 1
        \<and> EP_over_F_list st ! 0 = 7 \<and> CC_over_F_list st ! 0 = 5
        \<and> EXLI_per_student_list st ! 0 = 0 \<and> PR_SR_ratio_list st ! 0 = 0)"
proof -
  let ?r = ex_zero_denominators
  have v: "safe_float_get Map.empty ?r ''F1'' = 0" "safe_float_get Map.empty ?r ''F2'' = 0"
    "safe_float_get Map.empty ?r ''PW'' = 0" "safe_float_get Map.empty ?r ''PS'' = 0"
    "safe_float_get Map.empty ?r ''PG'' = 0" "safe_float_get Map.empty ?r ''PI'' = 0"
    "safe_float_get Map.empty ?r ''CCW'' = 0" "safe_float_get Map.empty ?r ''CCS'' = 10"
    "safe_float_get Map.empty ?r ''CCG'' = 0" "safe_float_get Map.empty ?r ''CCI'' = 0"
    "safe_float_get Map.empty ?r ''seats_N'' = 0"
    "safe_float_get Map.empty ?r ''sanctioned_S'' = 0"
    "safe_float_get Map.empty ?r ''PF_filed'' = 2"
    "safe_float_get Map.empty ?r ''PG_granted'' = 1"
    "safe_float_get Map.empty ?r ''EP_revenue'' = 7"
    by (simp_all add: ex_zero_denominators_def safe_float_get_def get_def safe_float_def)
  have d: "F_total_of Map.empty ?r = 0" "P_of Map.empty ?r = 0" "CC_of Map.empty ?r = 5"
    by (simp_all add: F_total_of_def P_of_def CC_of_def v)
  show ?thesis
    using first_loop_zero_denominators [of 0 "[?r]" Map.empty]
    by (simp add: v d)
qed

subsection \<open>The citation sub-score\<close>

lemma CI_at_value:
  assumes "idx < length records"
  shows "CI_at pf records idx =
     Inr (45 * (pct (map (\<lambda>r. ratio_or_one (CC_of pf r) (P_of pf r)) records)
                  (citation_index pf records (records ! idx)) / 100))"
  using assms
  by (simp add: CI_at_def first_loop_vectors py_index_def computed_internals_vectors_of
        CI_of_def p_citation_of_def base_citation_index_of_def P_over_F_of_def Let_def
        internals_of_def vectors_of_def citation_index_def)

lemma ex_citation_values:
  "F_total_of Map.empty (ex_citation_cohort ! 0) = 1"
  "F_total_of Map.empty (ex_citation_cohort ! Suc 0) = 1"
  "P_of Map.empty (ex_citation_cohort ! 0) = 1"
  "P_of Map.empty (ex_citation_cohort ! Suc 0) = 2"
  "CC_of Map.empty (ex_citation_cohort ! 0) = 4"
  "CC_of Map.empty (ex_citation_cohort ! Suc 0) = 2"
  by (simp_all add: ex_citation_cohort_def F_total_of_def P_of_def CC_of_def
        safe_float_get_def get_def safe_float_def)

lemma ex_citation_index:
  "citation_index Map.empty ex_citation_cohort (ex_citation_cohort ! 0) = 2"
  "citation_index Map.empty ex_citation_cohort (ex_citation_cohort ! Suc 0) = 1"
proof -
  have c: "ex_citation_cohort = [ex_citation_cohort ! 0, ex_citation_cohort ! Suc 0]"
    by (simp add: ex_citation_cohort_def)
  show "citation_index Map.empty ex_citation_cohort (ex_citation_cohort ! 0) = 2"
    unfolding citation_index_def
    by (subst (2) c) (simp add: ex_citation_values ratio_or_one_def pct_def)
  show "citation_index Map.empty ex_citation_cohort (ex_citation_cohort ! Suc 0) = 1"
    unfolding citation_index_def
    by (subst (2) c) (simp add: ex_citation_values ratio_or_one_def pct_def)
qed

text \<open>
  Claim C4, as stated, fails. In the example cohort the first institution has citation
  index 2 and the second has 1. Ranked against these indices, the first institution would
  stand at the 100th percentile and score 45. The code ranks its index 2 against
  \<^verbatim>\<open>CC_over_F_list\<close>, which holds the ratios 4 and 1, and scores 22.5.
\<close>

theorem citation_rank_counterexample:
  "CI_at Map.empty ex_citation_cohort 0 = Inr (45 / 2)
   \<and> 45 * (rank_among_indices Map.empty ex_citation_cohort (ex_citation_cohort ! 0) / 100) = 45"
proof -
  have c: "ex_citation_cohort = [ex_citation_cohort ! 0, ex_citation_cohort ! Suc 0]"
    by (simp add: ex_citation_cohort_def)
  have l: "0 < length ex_citation_cohort" by (simp add: ex_citation_cohort_def)
  have a: "CI_at Map.empty ex_citation_cohort 0 = Inr (45 / 2)"
    unfolding CI_at_value [OF l] ex_citation_index
    by (subst c) (simp add: ex_citation_values ratio_or_one_def pct_def)
  have b: "rank_among_indices Map.empty ex_citation_cohort (ex_citation_cohort ! 0) = 100"
    unfolding rank_among_indices_def ex_citation_index
    by (subst (2) c) (simp add: ex_citation_index pct_def)
  show ?thesis using a b by simp
qed

text \<open>
  Claim C4, amended. The citation sub-score of the record at position \<open>idx\<close> is 45 times
  the percentile rank (over 100) of its citation index, the index being (citation score /
  publication score, the divisor replaced by 1 when not positive) times (publication
  percentile / 100), and the population it is ranked against being \<^verbatim>\<open>CC_over_F_list\<close>:
  the cohort's citation score / publication score ratios, one per institution, not
  weighted by the publication percentile.
\<close>

theorem citation_ranked_against_raw_ratios:
  assumes "idx < length records"
  shows "\<exists>st. first_loop pf empty_vectors records = Inr st
     \<and> CC_over_F_list st = map (\<lambda>r. ratio_or_one (CC_of pf r) (P_of pf r)) records
     \<and> CI_at pf records idx =
         Inr (45 * (pct (CC_over_F_list st)
                      (citation_index pf records (records ! idx)) / 100))"
  using CI_at_value [OF assms, of pf]
  by (simp add: first_loop_vectors vectors_of_def)

theorem citation_ranked_against_raw_ratios_witness:
  "0 < length ex_citation_cohort
   \<and> (\<exists>st. first_loop Map.empty empty_vectors ex_citation_cohort = Inr st
        \<and> CC_over_F_list st = [4, 1]
        \<and> citation_index Map.empty ex_citation_cohort (ex_citation_cohort ! 0) = 2
        \<and> CI_at Map.empty ex_citation_cohort 0 = Inr (45 * (pct [4, 1] 2 / 100)))"
proof -
  have c: "ex_citation_cohort = [ex_citation_cohort ! 0, ex_citation_cohort ! Suc 0]"
    by (simp add: ex_citation_cohort_def)
  have l: "0 < length ex_citation_cohort" by (simp add: ex_citation_cohort_def)
  have m: "map (\<lambda>r. ratio_or_one (CC_of Map.empty r) (P_of Map.empty r)) ex_citation_cohort
             = [4, 1]"
    by (subst c) (simp add: ex_citation_values ratio_or_one_def)
  show ?thesis
    using citation_ranked_against_raw_ratios [OF l, of Map.empty] l
    by (auto simp add: m ex_citation_index)
qed

subsection \<open>A cohort of one record\<close>

lemma pyfloat_le_self: "(x::pyfloat) \<le> x \<longleftrightarrow> x \<noteq> NaN"
  by (cases x) simp_all

lemma pyfloat_times_one: "(x::pyfloat) * Fin 1 = x"
  by (cases x) simp_all

lemma pyfloat_pos_nonzero: "Fin 0 < (d::pyfloat) \<Longrightarrow> d \<noteq> Fin 0"
  by (cases d) simp_all

lemma py_div_f_ok: "b \<noteq> Fin 0 \<Longrightarrow> py_div_f a b = Inr (a / b)"
  by (simp add: py_div_f_def)

lemma length_insort_f: "length (insort_f x xs) = Suc (length xs)"
  by (induction xs) simp_all

lemma length_filter_insort_f:
  "length (filter Q (insort_f x xs)) = length (filter Q (x # xs))"
  by (induction xs) auto

lemma length_sorted_f: "length (sorted_f xs) = length xs"
  by (induction xs) (simp_all add: sorted_f_def length_insort_f)

lemma length_filter_sorted_f: "length (filter Q (sorted_f xs)) = length (filter Q xs)"
  by (induction xs) (simp_all add: sorted_f_def length_filter_insort_f)

lemma percentile_f_value: "percentile_f vs t = Inr (pct_f vs t)"
proof (cases "vs = []")
  case True
  then show ?thesis by (simp add: percentile_f_def pct_f_def)
next
  case False
  then have "Fin (real (length vs)) \<noteq> Fin 0" by simp
  then show ?thesis
    using False
    by (simp add: percentile_f_def pct_f_def Let_def length_sorted_f length_filter_sorted_f
          py_div_f_ok)
qed

lemma pct_f_single: "NaN \<noteq> v \<Longrightarrow> pct_f [v] v = Fin 100"
  by (auto simp add: pct_f_def pyfloat_le_self)

lemma pct_f_single_nan: "pct_f [NaN] NaN = Fin 0"
  by (simp add: pct_f_def)

lemma over_or_one_f_value: "over_or_one_f x d = Inr (ratio_or_one_f x d)"
  by (simp add: over_or_one_f_def ratio_or_one_f_def py_div_f_ok pyfloat_pos_nonzero)

lemma first_loop_f_single:
  "first_loop_f pf empty_vectors_f [r] = Inr (one_record_vectors pf r)"
proof (cases "Fin 0 < safe_float_get_f pf r ''seats_N''")
  case s: True
  show ?thesis
  proof (cases "Fin 0 < safe_float_get_f pf r ''sanctioned_S''")
    case True
    with s show ?thesis
      by (simp add: first_loop_body_f_def Let_def over_or_one_f_value py_div_f_ok
            pyfloat_pos_nonzero empty_vectors_f_def one_record_vectors_def internals_f_of_def
            F_total_f_def P_f_def CC_f_def EXLI_f_def EXLB_f_def SR_f_def)
  next
    case False
    with s show ?thesis
      by (simp add: first_loop_body_f_def Let_def over_or_one_f_value py_div_f_ok
            pyfloat_pos_nonzero empty_vectors_f_def one_record_vectors_def internals_f_of_def
            F_total_f_def P_f_def CC_f_def EXLI_f_def EXLB_f_def SR_f_def)
  qed
next
  case s: False
  show ?thesis
  proof (cases "Fin 0 < safe_float_get_f pf r ''sanctioned_S''")
    case True
    with s show ?thesis
      by (simp add: first_loop_body_f_def Let_def over_or_one_f_value py_div_f_ok
            pyfloat_pos_nonzero empty_vectors_f_def one_record_vectors_def internals_f_of_def
            F_total_f_def P_f_def CC_f_def EXLI_f_def EXLB_f_def SR_f_def)
  next
    case False
    with s show ?thesis
      by (simp add: first_loop_body_f_def Let_def over_or_one_f_value py_div_f_ok
            pyfloat_pos_nonzero empty_vectors_f_def one_record_vectors_def internals_f_of_def
            F_total_f_def P_f_def CC_f_def EXLI_f_def EXLB_f_def SR_f_def)
  qed
qed

lemma ex_nan_fields:
  "safe_float_get_f ex_nan_parser ex_nan_record ''PE_index'' = NaN"
  by (simp add: ex_nan_parser_def ex_nan_record_def safe_float_get_f_def get_def
        safe_float_f_def)

text \<open>
  Claim C6, as stated, fails. A cohort of one record whose placement index was entered as
  the text nan: \<^verbatim>\<open>safe_float\<close> returns NaN, the list \<^verbatim>\<open>PE_index_list\<close> is [NaN], and
  \<^verbatim>\<open>percentile\<close> counts no member at or below the target NaN. The placement
  percentile is 0, not 100.
\<close>

theorem nan_placement_counterexample:
  "placement_percentile_f ex_nan_parser [ex_nan_record] ex_nan_record = Inr (Fin 0)
     \<and> Fin 0 \<noteq> Fin 100"
  unfolding placement_percentile_f_def first_loop_f_single
  by (simp add: p_pe_f_def percentile_f_value one_record_vectors_def ex_nan_fields
        pct_f_single_nan)

text \<open>
  Claim C6, amended. For a cohort of exactly one record the first loop returns, and each
  of the eleven percentile ranks of the second loop (library, lab, publication, citation,
  patents filed, patents granted, patent revenue, placement index, community engagement,
  out-of-state, out-of-country) is 100 whenever the value it ranks is not NaN; for the
  citation rank, whenever neither the publication ratio nor the citation ratio is NaN.
\<close>

theorem single_record_percentiles_unless_nan:
  "\<exists>st it. first_loop_f pf empty_vectors_f [r] = Inr st
     \<and> py_index (f_computed_internals st) 0 = Inr it
     \<and> (NaN \<notin> set (f_EXLI_per_student_list st) \<longrightarrow> p_EXLI_f st it = Inr (Fin 100))
     \<and> (NaN \<notin> set (f_EXLB_per_student_list st) \<longrightarrow> p_EXLB_f st it = Inr (Fin 100))
     \<and> (NaN \<notin> set (f_P_list st) \<longrightarrow> p_pub_f st it = Inr (Fin 100))
     \<and> (NaN \<notin> set (f_P_list st) \<and> NaN \<notin> set (f_CC_over_F_list st) \<longrightarrow>
          p_citation_f st it = Inr (Fin 100))
     \<and> (NaN \<notin> set (f_PF_over_F_list st) \<longrightarrow> p_PF_f pf st it r = Inr (Fin 100))
     \<and> (NaN \<notin> set (f_PG_over_F_list st) \<longrightarrow> p_PG_f pf st it r = Inr (Fin 100))
     \<and> (NaN \<notin> set (f_EP_over_F_list st) \<longrightarrow> p_EP_f pf st it r = Inr (Fin 100))
     \<and> (NaN \<notin> set (f_PE_index_list st) \<longrightarrow> p_pe_f pf st r = Inr (Fin 100))
     \<and> (NaN \<notin> set (f_CES_N_list st) \<longrightarrow> p_CES_f pf st r = Inr (Fin 100))
     \<and> (NaN \<notin> set (f_RD_other_states_list st) \<longrightarrow> p_RD_states_f pf st r = Inr (Fin 100))
     \<and> (NaN \<notin> set (f_RD_other_countries_list st) \<longrightarrow>
          p_RD_countries_f pf st r = Inr (Fin 100))"
proof -
  let ?st = "one_record_vectors pf r" and ?it = "internals_f_of pf r"
  have 1: "first_loop_f pf empty_vectors_f [r] = Inr ?st" by (rule first_loop_f_single)
  have 2: "py_index (f_computed_internals ?st) 0 = Inr ?it"
    by (simp add: py_index_def one_record_vectors_def)
  have 3: "NaN \<notin> set (f_EXLI_per_student_list ?st) \<longrightarrow> p_EXLI_f ?st ?it = Inr (Fin 100)"
    "NaN \<notin> set (f_EXLB_per_student_list ?st) \<longrightarrow> p_EXLB_f ?st ?it = Inr (Fin 100)"
    by (simp_all add: p_EXLI_f_def p_EXLB_f_def percentile_f_value one_record_vectors_def
          internals_f_of_def pct_f_single)
  have 4: "NaN \<notin> set (f_P_list ?st) \<longrightarrow> p_pub_f ?st ?it = Inr (Fin 100)"
    by (simp add: p_pub_f_def over_or_one_f_value percentile_f_value one_record_vectors_def
          internals_f_of_def pct_f_single)
  have 5: "NaN \<notin> set (f_P_list ?st) \<and> NaN \<notin> set (f_CC_over_F_list ?st) \<longrightarrow>
             p_citation_f ?st ?it = Inr (Fin 100)"
    by (simp add: p_citation_f_def over_or_one_f_value percentile_f_value Let_def
          one_record_vectors_def internals_f_of_def pct_f_single pyfloat_times_one)
  have 6: "NaN \<notin> set (f_PF_over_F_list ?st) \<longrightarrow> p_PF_f pf ?st ?it r = Inr (Fin 100)"
    "NaN \<notin> set (f_PG_over_F_list ?st) \<longrightarrow> p_PG_f pf ?st ?it r = Inr (Fin 100)"
    "NaN \<notin> set (f_EP_over_F_list ?st) \<longrightarrow> p_EP_f pf ?st ?it r = Inr (Fin 100)"
    by (simp_all add: p_PF_f_def p_PG_f_def p_EP_f_def over_or_one_f_value percentile_f_value
          one_record_vectors_def internals_f_of_def pct_f_single)
  have 7: "NaN \<notin> set (f_PE_index_list ?st) \<longrightarrow> p_pe_f pf ?st r = Inr (Fin 100)"
    "NaN \<notin> set (f_CES_N_list ?st) \<longrightarrow> p_CES_f pf ?st r = Inr (Fin 100)"
    "NaN \<notin> set (f_RD_other_states_list ?st) \<longrightarrow> p_RD_states_f pf ?st r = Inr (Fin 100)"
    "NaN \<notin> set (f_RD_other_countries_list ?st) \<longrightarrow>
       p_RD_countries_f pf ?st r = Inr (Fin 100)"
    by (simp_all add: p_pe_f_def p_CES_f_def p_RD_states_f_def p_RD_countries_f_def
          percentile_f_value one_record_vectors_def pct_f_single)
  from 1 2 3 4 5 6 7 show ?thesis by blast
qed

lemma ex_finite_fields:
  "safe_float_get_f ex_decimal_parser ex_finite_record ''F1'' = Fin 10"
  "safe_float_get_f ex_decimal_parser ex_finite_record ''F2'' = Fin 0"
  "safe_float_get_f ex_decimal_parser ex_finite_record ''seats_N'' = Fin 100"
  "safe_float_get_f ex_decimal_parser ex_finite_record ''PW'' = Fin 0"
  "safe_float_get_f ex_decimal_parser ex_finite_record ''PS'' = Fin 4"
  "safe_float_get_f ex_decimal_parser ex_finite_record ''PG'' = Fin 0"
  "safe_float_get_f ex_decimal_parser ex_finite_record ''PI'' = Fin 0"
  "safe_float_get_f ex_decimal_parser ex_finite_record ''CCW'' = Fin 0"
  "safe_float_get_f ex_decimal_parser ex_finite_record ''CCS'' = Fin 6"
  "safe_float_get_f ex_decimal_parser ex_finite_record ''CCG'' = Fin 0"
  "safe_float_get_f ex_decimal_parser ex_finite_record ''CCI'' = Fin 0"
  "safe_float_get_f ex_decimal_parser ex_finite_record ''PF_filed'' = Fin 0"
  "safe_float_get_f ex_decimal_parser ex_finite_record ''PG_granted'' = Fin 0"
  "safe_float_get_f ex_decimal_parser ex_finite_record ''EP_revenue'' = Fin 0"
  "safe_float_get_f ex_decimal_parser ex_finite_record ''EXLIP'' = Fin 500"
  "safe_float_get_f ex_decimal_parser ex_finite_record ''EXLIE'' = Fin 0"
  "safe_float_get_f ex_decimal_parser ex_finite_record ''EXLB'' = Fin 0"
  "safe_float_get_f ex_decimal_parser ex_finite_record ''PE_index'' = Fin (15 / 2)"
  "safe_float_get_f ex_decimal_parser ex_finite_record ''CES_N'' = Fin 0"
  "safe_float_get_f ex_decimal_parser ex_finite_record ''RD_other_states'' = Fin 0"
  "safe_float_get_f ex_decimal_parser ex_finite_record ''RD_other_countries'' = Fin 0"
  by (simp_all add: ex_decimal_parser_def ex_finite_record_def safe_float_get_f_def get_def
        safe_float_f_def)

lemma ex_finite_lists:
  "f_P_list (one_record_vectors ex_decimal_parser ex_finite_record) = [Fin (1 / 5)]"
  "f_CC_over_F_list (one_record_vectors ex_decimal_parser ex_finite_record) = [Fin (3 / 2)]"
  "f_PF_over_F_list (one_record_vectors ex_decimal_parser ex_finite_record) = [Fin 0]"
  "f_PG_over_F_list (one_record_vectors ex_decimal_parser ex_finite_record) = [Fin 0]"
  "f_EP_over_F_list (one_record_vectors ex_decimal_parser ex_finite_record) = [Fin 0]"
  "f_EXLI_per_student_list (one_record_vectors ex_decimal_parser ex_finite_record) = [Fin 5]"
  "f_EXLB_per_student_list (one_record_vectors ex_decimal_parser ex_finite_record) = [Fin 0]"
  "f_PE_index_list (one_record_vectors ex_decimal_parser ex_finite_record) = [Fin (15 / 2)]"
  "f_CES_N_list (one_record_vectors ex_decimal_parser ex_finite_record) = [Fin 0]"
  "f_RD_other_states_list (one_record_vectors ex_decimal_parser ex_finite_record) = [Fin 0]"
  "f_RD_other_countries_list (one_record_vectors ex_decimal_parser ex_finite_record) = [Fin 0]"
  by (simp_all add: one_record_vectors_def ratio_or_one_f_def F_total_f_def P_f_def CC_f_def
        EXLI_f_def EXLB_f_def ex_finite_fields)

theorem single_record_percentiles_unless_nan_witness:
  "\<exists>st it. first_loop_f ex_decimal_parser empty_vectors_f [ex_finite_record] = Inr st
     \<and> py_index (f_computed_internals st) 0 = Inr it
     \<and> f_P_list st = [Fin (1 / 5)] \<and> f_CC_over_F_list st = [Fin (3 / 2)]
     \<and> f_PF_over_F_list st = [Fin 0] \<and> f_PG_over_F_list st = [Fin 0]
     \<and> f_EP_over_F_list st = [Fin 0] \<and> f_EXLI_per_student_list st = [Fin 5]
     \<and> f_EXLB_per_student_list st = [Fin 0] \<and> f_PE_index_list st = [Fin (15 / 2)]
     \<and> f_CES_N_list st = [Fin 0] \<and> f_RD_other_states_list st = [Fin 0]
     \<and> f_RD_other_countries_list st = [Fin 0]
     \<and> p_EXLI_f st it = Inr (Fin 100) \<and> p_EXLB_f st it = Inr (Fin 100)
     \<and> p_pub_f st it = Inr (Fin 100) \<and> p_citation_f st it = Inr (Fin 100)
     \<and> p_PF_f ex_decimal_parser st it ex_finite_record = Inr (Fin 100)
     \<and> p_PG_f ex_decimal_parser st it ex_finite_record = Inr (Fin 100)
     \<and> p_EP_f ex_decimal_parser st it ex_finite_record = Inr (Fin 100)
     \<and> p_pe_f ex_decimal_parser st ex_finite_record = Inr (Fin 100)
     \<and> p_CES_f ex_decimal_parser st ex_finite_record = Inr (Fin 100)
     \<and> p_RD_states_f ex_decimal_parser st ex_finite_record = Inr (Fin 100)
     \<and> p_RD_countries_f ex_decimal_parser st ex_finite_record = Inr (Fin 100)"
proof -
  from single_record_percentiles_unless_nan [of ex_decimal_parser ex_finite_record]
  obtain st it where
    a: "first_loop_f ex_decimal_parser empty_vectors_f [ex_finite_record] = Inr st"
    and b: "py_index (f_computed_internals st) 0 = Inr it"
    and c: "NaN \<notin> set (f_EXLI_per_student_list st) \<longrightarrow> p_EXLI_f st it = Inr (Fin 100)"
      "NaN \<notin> set (f_EXLB_per_student_list st) \<longrightarrow> p_EXLB_f st it = Inr (Fin 100)"
      "NaN \<notin> set (f_P_list st) \<longrightarrow> p_pub_f st it = Inr (Fin 100)"
      "NaN \<notin> set (f_P_list st) \<and> NaN \<notin> set (f_CC_over_F_list st) \<longrightarrow>
         p_citation_f st it = Inr (Fin 100)"
      "NaN \<notin> set (f_PF_over_F_list st) \<longrightarrow>
         p_PF_f ex_decimal_parser st it ex_finite_record = Inr (Fin 100)"
      "NaN \<notin> set (f_PG_over_F_list st) \<longrightarrow>
         p_PG_f ex_decimal_parser st it ex_finite_record = Inr (Fin 100)"
      "NaN \<notin> set (f_EP_over_F_list st) \<longrightarrow>
         p_EP_f ex_decimal_parser st it ex_finite_record = Inr (Fin 100)"
      "NaN \<notin> set (f_PE_index_list st) \<longrightarrow>
         p_pe_f ex_decimal_parser st ex_finite_record = Inr (Fin 100)"
      "NaN \<notin> set (f_CES_N_list st) \<longrightarrow>
         p_CES_f ex_decimal_parser st ex_finite_record = Inr (Fin 100)"
      "NaN \<notin> set (f_RD_other_states_list st) \<longrightarrow>
         p_RD_states_f ex_decimal_parser st ex_finite_record = Inr (Fin 100)"
      "NaN \<notin> set (f_RD_other_countries_list st) \<longrightarrow>
         p_RD_countries_f ex_decimal_parser st ex_finite_record = Inr (Fin 100)"
    by blast
  from a have st: "st = one_record_vectors ex_decimal_parser ex_finite_record"
    by (simp only: first_loop_f_single sum.inject)
  have l: "f_P_list st = [Fin (1 / 5)]" "f_CC_over_F_list st = [Fin (3 / 2)]"
    "f_PF_over_F_list st = [Fin 0]" "f_PG_over_F_list st = [Fin 0]"
    "f_EP_over_F_list st = [Fin 0]" "f_EXLI_per_student_list st = [Fin 5]"
    "f_EXLB_per_student_list st = [Fin 0]" "f_PE_index_list st = [Fin (15 / 2)]"
    "f_CES_N_list st = [Fin 0]" "f_RD_other_states_list st = [Fin 0]"
    "f_RD_other_countries_list st = [Fin 0]"
    unfolding st by (rule ex_finite_lists)+
  from c have d: "p_EXLI_f st it = Inr (Fin 100)" "p_EXLB_f st it = Inr (Fin 100)"
    "p_pub_f st it = Inr (Fin 100)" "p_citation_f st it = Inr (Fin 100)"
    "p_PF_f ex_decimal_parser st it ex_finite_record = Inr (Fin 100)"
    "p_PG_f ex_decimal_parser st it ex_finite_record = Inr (Fin 100)"
    "p_EP_f ex_decimal_parser st it ex_finite_record = Inr (Fin 100)"
    "p_pe_f ex_decimal_parser st ex_finite_record = Inr (Fin 100)"
    "p_CES_f ex_decimal_parser st ex_finite_record = Inr (Fin 100)"
    "p_RD_states_f ex_decimal_parser st ex_finite_record = Inr (Fin 100)"
    "p_RD_countries_f ex_decimal_parser st ex_finite_record = Inr (Fin 100)"
    by (simp_all add: l)
  from a b l d show ?thesis by blast
qed

subsection \<open>The cohort anchor\<close>

text \<open>
  Claim C10. In a non-empty cohort in which every application/seat ratio is 0, the anchor
  \<^verbatim>\<open>R_star\<close> is 0 (not the fallback 1.0 of the empty cohort), and the SR component of
  every record is 0: \<open>SR_of\<close> returns a number, the division by the anchor being skipped.
\<close>

theorem zero_anchor_cohort:
  assumes "records \<noteq> []"
    and "\<forall>r\<in>set records.
           SR_ratio_of (safe_float_get pf r ''applications_A'')
             (safe_float_get pf r ''sanctioned_S'') = Inr 0"
  shows "\<exists>st. first_loop pf empty_vectors records = Inr st
     \<and> R_star_of st = Inr 0
     \<and> (\<forall>it\<in>set (computed_internals st). SR_of (i_SR_ratio it) 0 = Inr 0)"
proof -
  have z: "\<forall>r\<in>set records. SR_value pf r = 0"
    using assms(2) by (simp add: SR_ratio_value)
  have "R_star_of (vectors_of pf records) = Inr 0"
    using assms(1) z by (simp add: R_star_of_def vectors_of_def py_max_zero)
  moreover have "\<forall>it\<in>set (computed_internals (vectors_of pf records)).
                   SR_of (i_SR_ratio it) 0 = Inr 0"
    by (simp add: SR_of_value)
  ultimately show ?thesis by (simp add: first_loop_vectors)
qed

text \<open>The hypothesis holds in particular when no sanctioned intake is positive.\<close>

lemma SR_ratio_no_intake: "S_intake \<le> 0 \<Longrightarrow> SR_ratio_of A_apps S_intake = Inr 0"
  by (simp add: SR_ratio_of_def)

lemma ex_no_intake_ratios:
  "SR_ratio_of (safe_float_get Map.empty (ex_no_intake_cohort ! 0) ''applications_A'')
     (safe_float_get Map.empty (ex_no_intake_cohort ! 0) ''sanctioned_S'') = Inr 0"
  "SR_ratio_of (safe_float_get Map.empty (ex_no_intake_cohort ! Suc 0) ''applications_A'')
     (safe_float_get Map.empty (ex_no_intake_cohort ! Suc 0) ''sanctioned_S'') = Inr 0"
  by (simp_all add: ex_no_intake_cohort_def SR_ratio_of_def safe_float_get_def get_def
        safe_float_def)

theorem zero_anchor_cohort_witness:
  "ex_no_intake_cohort \<noteq> []
   \<and> SR_ratio_of (safe_float_get Map.empty (ex_no_intake_cohort ! 0) ''applications_A'')
        (safe_float_get Map.empty (ex_no_intake_cohort ! 0) ''sanctioned_S'') = Inr 0
   \<and> SR_ratio_of (safe_float_get Map.empty (ex_no_intake_cohort ! Suc 0) ''applications_A'')
        (safe_float_get Map.empty (ex_no_intake_cohort ! Suc 0) ''sanctioned_S'') = Inr 0
   \<and> (\<exists>st. first_loop Map.empty empty_vectors ex_no_intake_cohort = Inr st
        \<and> R_star_of st = Inr 0 \<and> length (computed_internals st) = 2
        \<and> SR_of (i_SR_ratio (computed_internals st ! 0)) 0 = Inr 0
        \<and> SR_of (i_SR_ratio (computed_internals st ! Suc 0)) 0 = Inr 0)"
proof -
  have c: "ex_no_intake_cohort = [ex_no_intake_cohort ! 0, ex_no_intake_cohort ! Suc 0]"
    by (simp add: ex_no_intake_cohort_def)
  have n: "ex_no_intake_cohort \<noteq> []" by (simp add: ex_no_intake_cohort_def)
  have a: "\<forall>r\<in>set ex_no_intake_cohort.
             SR_ratio_of (safe_float_get Map.empty r ''applications_A'')
               (safe_float_get Map.empty r ''sanctioned_S'') = Inr 0"
    by (subst c) (simp add: ex_no_intake_ratios)
  have len: "length ex_no_intake_cohort = 2" by (simp add: ex_no_intake_cohort_def)
  from zero_anchor_cohort [OF n a] obtain st where
    st: "first_loop Map.empty empty_vectors ex_no_intake_cohort = Inr st"
        "R_star_of st = Inr 0"
        "\<forall>it\<in>set (computed_internals st). SR_of (i_SR_ratio it) 0 = Inr 0"
    by blast
  from st(1) have l2: "length (computed_internals st) = 2"
    by (auto simp add: first_loop_vectors computed_internals_vectors_of len)
  then have "computed_internals st ! 0 \<in> set (computed_internals st)"
    "computed_internals st ! Suc 0 \<in> set (computed_internals st)"
    by simp_all
  with st l2 n ex_no_intake_ratios show ?thesis by blast
qed

subsection \<open>One result per record\<close>

text \<open>
  Where every record's institution type is absent, falsy or a string and the total can
  read numeric weights, the engine returns exactly one result per input record, in the
  order of the input, each carrying the \<^verbatim>\<open>college_name\<close> of its input record.
\<close>

lemma compute_scores_cardinality:
  assumes "\<forall>r\<in>set records. inst_type_of r \<noteq> Inl AttributeError"
    and "weights_usable wfile"
  shows "\<exists>out. compute_scores pf wfile records = Inr out
           \<and> length out = length records
           \<and> map res_college_name out = map (\<lambda>r. get r ''college_name'') records"
proof -
  obtain R where R: "R_star_of (vectors_of pf records) = Inr R"
    using R_star_returns by blast
  have "0 + length records \<le> length (computed_internals (vectors_of pf records))"
    by (simp add: computed_internals_vectors_of)
  from second_loop_returns [OF this assms, of pf R] obtain out where
    out: "second_loop pf wfile (vectors_of pf records) R 0 records = Inr out"
         "map res_college_name out = map (\<lambda>r. get r ''college_name'') records"
    by blast
  from out(2) have "length out = length records"
    by (metis length_map)
  with out show ?thesis
    by (simp add: compute_scores_def first_loop_vectors R)
qed

lemma compute_scores_example:
  "inst_type_of (ex_named_cohort ! 0) \<noteq> Inl AttributeError
   \<and> inst_type_of (ex_named_cohort ! Suc 0) \<noteq> Inl AttributeError
   \<and> weights_usable NoFile
   \<and> (\<exists>out. compute_scores Map.empty NoFile ex_named_cohort = Inr out
        \<and> length out = 2
        \<and> map res_college_name out = [PStr ''A'', PStr ''B''])"
proof -
  have c: "ex_named_cohort = [ex_named_cohort ! 0, ex_named_cohort ! Suc 0]"
    by (simp add: ex_named_cohort_def)
  have t: "inst_type_of (ex_named_cohort ! 0) \<noteq> Inl AttributeError"
    "inst_type_of (ex_named_cohort ! Suc 0) \<noteq> Inl AttributeError"
    by (simp_all add: ex_named_cohort_def inst_type_of_def get_def)
  have a: "\<forall>r\<in>set ex_named_cohort. inst_type_of r \<noteq> Inl AttributeError"
    by (subst c) (simp add: t)
  have w: "weights_usable NoFile"
    by (simp add: weights_usable_def weights_of_def default_weights_def)
  have n: "map (\<lambda>r. get r ''college_name'') ex_named_cohort = [PStr ''A'', PStr ''B'']"
    by (simp add: ex_named_cohort_def get_def)
  have len: "length ex_named_cohort = 2" by (simp add: ex_named_cohort_def)
  show ?thesis
    using compute_scores_cardinality [OF a w, of Map.empty] t w
    by (auto simp add: n len)
qed

lemma second_loop_body_total_raises:
  assumes "idx < length (computed_internals st)"
    and "inst_type_of r \<noteq> Inl AttributeError"
    and "\<And>a b c d e. total_score wfile a b c d e = Inl err"
  shows "second_loop_body pf wfile st R idx r = Inl err"
proof -
  define it where "it = computed_internals st ! idx"
  have ix: "py_index (computed_internals st) idx = Inr it"
    using assms(1) by (simp add: py_index_def it_def)
  have "\<exists>ty. inst_type_of r = Inr ty"
    using assms(2) by (auto simp: inst_type_of_def Let_def split: pyval.splits if_splits)
  then obtain ty where ty: "inst_type_of r = Inr ty" ..
  obtain FSR where FSR: "FSR_of ty (i_F_total it) (safe_float_get pf r ''seats_N'') = Inr FSR"
    by (simp add: FSR_value)
  obtain LL where LL: "LL_of st ty it = Inr LL" using LL_returns by blast
  obtain PU where PU: "PU_of st it = Inr PU" using PU_returns by blast
  obtain CI where CI: "CI_of st it = Inr CI" using CI_returns by blast
  obtain IPR where IPR: "IPR_of pf st it r = Inr IPR" using IPR_returns by blast
  obtain GO where GO: "GO_of pf st r = Inr GO" using GO_returns by blast
  obtain OI where OI: "OI_of pf st r = Inr OI" using OI_returns by blast
  obtain PR where PR: "PR_of pf it R r = Inr PR" using PR_returns by blast
  show ?thesis
    by (simp add: second_loop_body_def ix ty FSR LL PU CI IPR GO OI PR assms(3) Let_def)
qed

text \<open>
  Claim C9 says that the engine returns one result per input record for every cohort.
  The code at a cohort of one college named A, with a weights file whose mapping lacks
  TLR: \<^verbatim>\<open>weights["TLR"]\<close> raises KeyError in the first iteration of the second loop
  and no result is returned, whatever \<^verbatim>\<open>float()\<close> does on text.
\<close>

theorem compute_scores_missing_TLR:
  "compute_scores pf ex_weights_without_TLR ex_one_college = Inl KeyError"
proof -
  let ?st = "vectors_of pf ex_one_college"
  obtain R where R: "R_star_of ?st = Inr R"
    using R_star_returns by blast
  have c: "ex_one_college = [ex_one_college ! 0]"
    by (simp add: ex_one_college_def)
  have i: "inst_type_of (ex_one_college ! 0) \<noteq> Inl AttributeError"
    by (simp add: ex_one_college_def inst_type_of_def get_def)
  have l: "0 < length (computed_internals ?st)"
    by (simp add: computed_internals_vectors_of ex_one_college_def)
  have t: "total_score ex_weights_without_TLR a b c d e = Inl KeyError" for a b c d e
    by (simp add: ex_weights_without_TLR_def total_score_def weights_of_def subscript_def)
  have b: "second_loop_body pf ex_weights_without_TLR ?st R 0 (ex_one_college ! 0)
             = Inl KeyError"
    by (rule second_loop_body_total_raises [OF l i t])
  have "second_loop pf ex_weights_without_TLR ?st R 0 ex_one_college = Inl KeyError"
    by (subst (2) c) (simp add: b)
  then show ?thesis
    by (simp add: compute_scores_def first_loop_vectors R)
qed

end
